theory Spec2Isabelle
  imports Complex_Main
begin

section \<open>JavaScript values\<close>

text \<open>
  The scan service answers with JSON, which the code casts to \<open>ScanResult\<close> without any
  validation, so a payload is an object whose fields hold arbitrary values. Values are
  modelled dynamically. A string is a list of code units below 256; a JSON number is a
  rational (the code only compares numbers with the literals 0.9 and 0.7).
  \<open>JUndefined\<close> is what reading an absent property gives. \<open>JBuiltin k\<close> is the object
  found under the name \<open>k\<close> on \<open>Object.prototype\<close> (a function, or \<open>Object.prototype\<close>
  itself for \<open>__proto__\<close>): every object literal inherits these properties.
\<close>

datatype jsval =
    JUndefined
  | JNull
  | JBool bool
  | JNum rat
  | JStr string
  | JArr "jsval list"
  | JObj "(string \<times> jsval) list"
  | JBuiltin string

type_synonym obj = "(string \<times> jsval) list"

text \<open>Property read \<open>o.k\<close> on an object built from JSON or from an object literal of own
  data properties.\<close>

definition get :: "obj \<Rightarrow> string \<Rightarrow> jsval" where
  "get ob k = (case map_of ob k of Some v \<Rightarrow> v | None \<Rightarrow> JUndefined)"

definition field_names :: "obj \<Rightarrow> string list" where
  "field_names ob = map fst ob"

text \<open>ToBoolean.\<close>

fun truthy :: "jsval \<Rightarrow> bool" where
  "truthy JUndefined = False"
| "truthy JNull = False"
| "truthy (JBool b) = b"
| "truthy (JNum r) = (r \<noteq> 0)"
| "truthy (JStr s) = (s \<noteq> [])"
| "truthy (JArr xs) = True"
| "truthy (JObj ps) = True"
| "truthy (JBuiltin k) = True"

text \<open>The operator \<open>a || b\<close>.\<close>

definition js_or :: "jsval \<Rightarrow> jsval \<Rightarrow> jsval" where
  "js_or a b = (if truthy a then a else b)"

text \<open>\<open>String.prototype.toLowerCase\<close> on code units below 256: the letters A to Z and the
  Latin-1 capitals 0xC0 to 0xDE (0xD7, the multiplication sign, apart) move up by 32, that
  is, bit 5 is set.\<close>

definition toLowerCase_char :: "char \<Rightarrow> char" where
  "toLowerCase_char c =
     (let n = (of_char c :: nat) in
      if (65 \<le> n \<and> n \<le> 90) \<or> (192 \<le> n \<and> n \<le> 222 \<and> n \<noteq> 215)
      then (case c of Char b0 b1 b2 b3 b4 b5 b6 b7 \<Rightarrow> Char b0 b1 b2 b3 b4 True b6 b7)
      else c)"

definition toLowerCase :: "string \<Rightarrow> string" where
  "toLowerCase s = map toLowerCase_char s"

text \<open>\<open>s.replace(/-/g, '_')\<close>.\<close>

definition replace_hyphens :: "string \<Rightarrow> string" where
  "replace_hyphens s = map (\<lambda>c. if c = CHR ''-'' then CHR ''_'' else c) s"

section \<open>Errors\<close>

text \<open>
  Thrown values. \<open>Error m\<close> is a plain \<open>Error\<close> (or a platform error such as the
  \<open>AbortError\<close> of an aborted fetch) with message \<open>m\<close>; \<open>TypeError m\<close> is raised by the
  language itself. \<open>ShrikeBlockedError message threatType confidence violations\<close> has the
  fields of the class of that name.
\<close>

datatype exn =
    Error string
  | TypeError string
  | ShrikeScanError string
  | ShrikeBlockedError string jsval jsval jsval

section \<open>Sanitizer (sanitizer.ts)\<close>

definition THREAT_TYPE_MAP :: "(string \<times> string) list" where
  "THREAT_TYPE_MAP = [
    (''prompt_injection'', ''prompt_injection''),
    (''injection'', ''prompt_injection''),
    (''inject'', ''prompt_injection''),
    (''instruction_override'', ''prompt_injection''),
    (''role_hijacking'', ''prompt_injection''),
    (''context_manipulation'', ''prompt_injection''),
    (''token_manipulation'', ''prompt_injection''),
    (''indirect_injection'', ''prompt_injection''),
    (''context_poisoning'', ''prompt_injection''),
    (''function_injection'', ''prompt_injection''),
    (''memory_injection'', ''prompt_injection''),
    (''topic_mismatch'', ''prompt_injection''),
    (''jailbreak'', ''jailbreak''),
    (''jailbreak_attempt'', ''jailbreak''),
    (''safety_bypass'', ''jailbreak''),
    (''roleplay'', ''jailbreak''),
    (''hypothetical'', ''jailbreak''),
    (''completion_baiting'', ''jailbreak''),
    (''override'', ''jailbreak''),
    (''manipulate'', ''jailbreak''),
    (''tonality_drift_profanity'', ''jailbreak''),
    (''tonality_drift_casual'', ''jailbreak''),
    (''tonality_drift_hostile'', ''jailbreak''),
    (''system_prompt_leak'', ''system_prompt_leak''),
    (''system_prompt_extraction'', ''system_prompt_leak''),
    (''data_exfiltration'', ''data_exfiltration''),
    (''exfiltration'', ''data_exfiltration''),
    (''exfiltrate'', ''data_exfiltration''),
    (''extract'', ''data_exfiltration''),
    (''data_leak'', ''data_exfiltration''),
    (''information_disclosure'', ''data_exfiltration''),
    (''credential_extraction'', ''data_exfiltration''),
    (''sql_injection'', ''sql_injection''),
    (''sqli'', ''sql_injection''),
    (''tautology'', ''sql_injection''),
    (''tautology_or'', ''sql_injection''),
    (''tautology_and'', ''sql_injection''),
    (''union_injection'', ''sql_injection''),
    (''stacked_query'', ''sql_injection''),
    (''path_traversal'', ''path_traversal''),
    (''directory_traversal'', ''path_traversal''),
    (''path_violation'', ''path_traversal''),
    (''file_access'', ''path_traversal''),
    (''sensitive_path'', ''path_traversal''),
    (''sensitive_extension'', ''path_traversal''),
    (''blocked_extension'', ''path_traversal''),
    (''secrets_exposure'', ''secrets_exposure''),
    (''secrets'', ''secrets_exposure''),
    (''api_key'', ''secrets_exposure''),
    (''credential'', ''secrets_exposure''),
    (''sensitive_file'', ''secrets_exposure''),
    (''content_violation'', ''secrets_exposure''),
    (''sensitive_content'', ''secrets_exposure''),
    (''secret_key'', ''secrets_exposure''),
    (''aws_key'', ''secrets_exposure''),
    (''private_key'', ''secrets_exposure''),
    (''pii_exposure'', ''pii_exposure''),
    (''pii'', ''pii_exposure''),
    (''pii_leak'', ''pii_exposure''),
    (''personal_data'', ''pii_exposure''),
    (''pii_in_search'', ''pii_exposure''),
    (''pii_extraction'', ''pii_exposure''),
    (''ssn'', ''pii_exposure''),
    (''credit_card'', ''pii_exposure''),
    (''email_exposure'', ''pii_exposure''),
    (''phone_number'', ''pii_exposure''),
    (''unexpected_pii_leakage'', ''pii_exposure''),
    (''blocked_domain'', ''blocked_domain''),
    (''suspicious_tld'', ''blocked_domain''),
    (''suspicious_domain'', ''blocked_domain''),
    (''malicious_url'', ''blocked_domain''),
    (''toxicity'', ''toxicity''),
    (''harmful_content'', ''toxicity''),
    (''malicious_content'', ''malicious_code''),
    (''malicious_code'', ''malicious_code''),
    (''reverse_shell'', ''malicious_code''),
    (''web_shell'', ''malicious_code''),
    (''fork_bomb'', ''malicious_code''),
    (''crypto_miner'', ''malicious_code''),
    (''persistence'', ''malicious_code''),
    (''shell_injection'', ''malicious_code''),
    (''harmful_intent'', ''harmful_intent''),
    (''dangerous_request'', ''harmful_intent''),
    (''social_engineering'', ''social_engineering''),
    (''emotional'', ''social_engineering''),
    (''authority_claim'', ''social_engineering''),
    (''privilege_escalation'', ''privilege_escalation''),
    (''destructive_operation'', ''destructive_operation''),
    (''scan_error'', ''scan_error''),
    (''size_limit_exceeded'', ''size_limit_exceeded''),
    (''size_limit'', ''size_limit_exceeded''),
    (''timeout'', ''scan_error'')]"

definition THREAT_GUIDANCE :: "(string \<times> string) list" where
  "THREAT_GUIDANCE = [
    (''prompt_injection'',
      ''This prompt contains patterns consistent with instruction override attempts.''),
    (''jailbreak'',
      ''This prompt attempts to bypass safety guidelines. The request has been blocked.''),
    (''system_prompt_leak'',
      ''The response contains system prompt disclosure. The response has been blocked.''),
    (''data_exfiltration'',
      ''This prompt may attempt to extract sensitive information.''),
    (''sql_injection'', ''This query contains potentially dangerous SQL patterns.''),
    (''path_traversal'',
      ''This file path attempts to access directories outside the allowed scope.''),
    (''secrets_exposure'',
      ''This content contains patterns matching API keys, tokens, or credentials.''),
    (''pii_exposure'', ''This content contains personally identifiable information.''),
    (''blocked_domain'', ''This web search targets a restricted domain.''),
    (''toxicity'',
      ''This content contains potentially harmful or inappropriate language.''),
    (''malicious_code'',
      ''This content contains patterns associated with malicious code.''),
    (''harmful_intent'',
      ''This request contains content associated with harmful intent.''),
    (''social_engineering'',
      ''This prompt contains social engineering patterns.''),
    (''privilege_escalation'',
      ''This query attempts to escalate privileges or gain unauthorized access.''),
    (''destructive_operation'',
      ''This query contains destructive operations. Review carefully.''),
    (''scan_error'',
      ''The security scan could not be completed. Blocked as precaution.''),
    (''size_limit_exceeded'', ''The content exceeds the maximum allowed size.''),
    (''unknown'', ''A security concern was detected. Please review the content.'')]"

definition THREAT_SEVERITY :: "(string \<times> string) list" where
  "THREAT_SEVERITY = [
    (''prompt_injection'', ''high''),
    (''jailbreak'', ''high''),
    (''system_prompt_leak'', ''high''),
    (''data_exfiltration'', ''high''),
    (''sql_injection'', ''critical''),
    (''path_traversal'', ''high''),
    (''secrets_exposure'', ''critical''),
    (''pii_exposure'', ''high''),
    (''blocked_domain'', ''medium''),
    (''toxicity'', ''medium''),
    (''malicious_code'', ''critical''),
    (''harmful_intent'', ''high''),
    (''social_engineering'', ''medium''),
    (''privilege_escalation'', ''critical''),
    (''destructive_operation'', ''critical''),
    (''scan_error'', ''medium''),
    (''size_limit_exceeded'', ''low''),
    (''unknown'', ''medium'')]"

text \<open>The threat types exposed to users: the values of \<open>THREAT_TYPE_MAP\<close> and the
  fallback \<open>unknown\<close>. They are the keys of the two tables above.\<close>

definition public_threat_types :: "string list" where
  "public_threat_types = map fst THREAT_SEVERITY"

definition INTERNAL_FIELDS :: "string list" where
  "INTERNAL_FIELDS = [''detected_by'', ''policy_id'', ''policy_name'', ''matched_pattern'',
     ''matched_text'', ''pattern'', ''scan_stage'', ''ai_reasoning'', ''llm_analysis'',
     ''performance_metrics'', ''performance'']"

text \<open>
  The three tables are object literals (\<open>Record<string, string>\<close>), and the code reads them
  with \<open>TABLE[key]\<close>. Such a read finds the table's own entries first and then the
  properties every object inherits from \<open>Object.prototype\<close>, whose names are listed here.
\<close>

definition OBJECT_PROTOTYPE_KEYS :: "string list" where
  "OBJECT_PROTOTYPE_KEYS = [''constructor'', ''__defineGetter__'', ''__defineSetter__'',
     ''hasOwnProperty'', ''__lookupGetter__'', ''__lookupSetter__'', ''isPrototypeOf'',
     ''propertyIsEnumerable'', ''toString'', ''valueOf'', ''__proto__'',
     ''toLocaleString'']"

definition table_get :: "(string \<times> string) list \<Rightarrow> string \<Rightarrow> jsval" where
  "table_get tbl k =
     (case map_of tbl k of
        Some v \<Rightarrow> JStr v
      | None \<Rightarrow> if k \<in> set OBJECT_PROTOTYPE_KEYS then JBuiltin k else JUndefined)"

text \<open>
  A table read whose key is a value. The key is converted to a string first; the
  conversion of a builtin (the source text of a function, or \<open>[object Object]\<close>) names
  no property of a table or of \<open>Object.prototype\<close>. The program indexes the tables only
  with results of \<open>normalizeThreatType\<close>, which are strings or builtins.
\<close>

definition table_get_val :: "(string \<times> string) list \<Rightarrow> jsval \<Rightarrow> jsval" where
  "table_get_val tbl key = (case key of JStr s \<Rightarrow> table_get tbl s | _ \<Rightarrow> JUndefined)"

text \<open>
  \<open>normalizeThreatType(rawType?: string)\<close>. The parameter is declared a string, but
  \<open>sanitizeScanResponse\<close> passes \<open>raw.threat_type\<close> unchecked: a falsy value gives
  \<open>'unknown'\<close>, and a truthy value that is not a string has no \<open>toLowerCase\<close> method, so
  the call raises a \<open>TypeError\<close>.
\<close>

definition normalizeThreatType :: "jsval \<Rightarrow> exn + jsval" where
  "normalizeThreatType rawType =
     (if \<not> truthy rawType then Inr (JStr ''unknown'')
      else case rawType of
        JStr s \<Rightarrow>
          (let normalized = replace_hyphens (toLowerCase s)
           in Inr (js_or (table_get THREAT_TYPE_MAP normalized) (JStr ''unknown'')))
      | _ \<Rightarrow> Inl (TypeError ''rawType.toLowerCase is not a function''))"

definition validSeverities :: "string list" where
  "validSeverities = [''critical'', ''high'', ''medium'', ''low'']"

definition deriveSeverity :: "jsval \<Rightarrow> string option \<Rightarrow> jsval" where
  "deriveSeverity threatType rawSeverity =
     (case rawSeverity of
        Some s \<Rightarrow>
          if s \<noteq> [] \<and> toLowerCase s \<in> set validSeverities then JStr (toLowerCase s)
          else js_or (table_get_val THREAT_SEVERITY threatType) (JStr ''medium'')
      | None \<Rightarrow> js_or (table_get_val THREAT_SEVERITY threatType) (JStr ''medium''))"

text \<open>\<open>bucketConfidence(score?: number)\<close>; \<open>None\<close> is \<open>undefined\<close> or \<open>null\<close>.\<close>

definition bucketConfidence :: "rat option \<Rightarrow> string" where
  "bucketConfidence score =
     (case score of
        None \<Rightarrow> ''medium''
      | Some x \<Rightarrow> if x \<ge> 9 / 10 then ''high'' else if x \<ge> 7 / 10 then ''medium'' else ''low'')"

text \<open>\<open>typeof v === 'number' ? v : undefined\<close> and \<open>typeof v === 'string' ? v : undefined\<close>.\<close>

definition number_or_undefined :: "jsval \<Rightarrow> rat option" where
  "number_or_undefined v = (case v of JNum r \<Rightarrow> Some r | _ \<Rightarrow> None)"

definition string_or_undefined :: "jsval \<Rightarrow> string option" where
  "string_or_undefined v = (case v of JStr s \<Rightarrow> Some s | _ \<Rightarrow> None)"

definition sanitizeScanResponse :: "obj \<Rightarrow> exn + obj" where
  "sanitizeScanResponse raw =
     (let safe = (get raw ''safe'' \<noteq> JBool False) in
      if safe then
        Inr [(''safe'', JBool True), (''reason'', js_or (get raw ''reason'') (JStr ''''))]
      else
        case normalizeThreatType (get raw ''threat_type'') of
          Inl e \<Rightarrow> Inl e
        | Inr threatType \<Rightarrow>
            (let confidence = bucketConfidence (number_or_undefined (get raw ''confidence''));
                 severity = deriveSeverity threatType (string_or_undefined (get raw ''severity''));
                 guidance = js_or (table_get_val THREAT_GUIDANCE threatType)
                                  (table_get THREAT_GUIDANCE ''unknown'')
             in Inr [(''safe'', JBool False),
                     (''threat_type'', threatType),
                     (''severity'', severity),
                     (''confidence'', JStr confidence),
                     (''reason'', js_or (get raw ''reason'') guidance),
                     (''guidance'', guidance)]))"

section \<open>Strings\<close>

text \<open>\<open>s.includes(pat)\<close>: \<open>pat\<close> occurs in \<open>s\<close> as a contiguous run.\<close>

fun str_includes :: "string \<Rightarrow> string \<Rightarrow> bool" where
  "str_includes [] pat = (pat = [])"
| "str_includes (c # cs) pat = (take (length pat) (c # cs) = pat \<or> str_includes cs pat)"

text \<open>White space and line terminators below 256, as \<open>String.prototype.trim\<close> strips
  them: tab, line feed, vertical tab, form feed, carriage return, space, no-break space.\<close>

definition is_whitespace :: "char \<Rightarrow> bool" where
  "is_whitespace c = ((of_char c :: nat) \<in> {9, 10, 11, 12, 13, 32, 160})"

definition trim :: "string \<Rightarrow> string" where
  "trim s = rev (dropWhile is_whitespace (rev (dropWhile is_whitespace s)))"

text \<open>\<open>xs.join(sep)\<close>.\<close>

fun join :: "string \<Rightarrow> string list \<Rightarrow> string" where
  "join sep [] = []"
| "join sep [x] = x"
| "join sep (x # y # ys) = x @ sep @ join sep (y # ys)"

text \<open>A non-negative integer inside a template literal: its decimal digits.\<close>

definition digit_char :: "nat \<Rightarrow> char" where
  "digit_char d = ''0123456789'' ! d"

function show_nat :: "nat \<Rightarrow> string" where
  "show_nat n = (if n < 10 then [digit_char n] else show_nat (n div 10) @ [digit_char (n mod 10)])"
  by pat_completeness auto
termination
  by (relation "measure id") auto

declare show_nat.simps [simp del]

text \<open>\<open>Math.round(n / d)\<close> for non-negative integers: halves round up.\<close>

definition round_div :: "nat \<Rightarrow> nat \<Rightarrow> nat" where
  "round_div n d = (2 * n + d) div (2 * d)"

section \<open>Configuration (config.ts) and the platform\<close>

definition FailMode_OPEN :: string where
  "FailMode_OPEN = ''open''"

definition FailMode_CLOSED :: string where
  "FailMode_CLOSED = ''closed''"

definition DEFAULT_SCAN_TIMEOUT :: nat where
  "DEFAULT_SCAN_TIMEOUT = 10000"

definition DEFAULT_FAIL_MODE :: string where
  "DEFAULT_FAIL_MODE = FailMode_OPEN"

definition DEFAULT_ENDPOINT :: string where
  "DEFAULT_ENDPOINT = ''https://api.shrikesecurity.com/agent''"

text \<open>
  The options of the three wrappers and the fields their constructors store. The
  declared type of \<open>failMode\<close> is \<open>FailMode | 'open' | 'closed'\<close>; at run time it is a
  string that the constructor stores as it is, or it is absent.
\<close>

record options =
  opt_shrikeApiKey :: "string option"
  opt_shrikeEndpoint :: "string option"
  opt_failMode :: "string option"
  opt_scanTimeout :: "nat option"

record config =
  shrikeEndpoint :: string
  shrikeApiKey :: string
  failMode :: string
  scanTimeout :: nat

text \<open>\<open>s.replace(/\/$/, '')\<close>: one trailing slash is removed.\<close>

definition strip_trailing_slash :: "string \<Rightarrow> string" where
  "strip_trailing_slash s = (if s \<noteq> [] \<and> last s = CHR ''/'' then butlast s else s)"

text \<open>\<open>a || d\<close> for an optional string and for an optional number.\<close>

definition string_or_default :: "string option \<Rightarrow> string \<Rightarrow> string" where
  "string_or_default a d = (case a of Some s \<Rightarrow> if s \<noteq> [] then s else d | None \<Rightarrow> d)"

definition number_or_default :: "nat option \<Rightarrow> nat \<Rightarrow> nat" where
  "number_or_default a d = (case a of Some n \<Rightarrow> if n \<noteq> 0 then n else d | None \<Rightarrow> d)"

text \<open>The part of the constructors of \<open>ShrikeOpenAI\<close>, \<open>ShrikeAnthropic\<close> and
  \<open>ShrikeGemini\<close> that sets the scan configuration; it is the same text in all three.\<close>

definition constructor :: "options \<Rightarrow> config" where
  "constructor opts =
     \<lparr> shrikeEndpoint =
         strip_trailing_slash (string_or_default (opt_shrikeEndpoint opts) DEFAULT_ENDPOINT),
       shrikeApiKey = string_or_default (opt_shrikeApiKey opts) [],
       failMode = (case opt_failMode opts of Some s \<Rightarrow> s | None \<Rightarrow> DEFAULT_FAIL_MODE),
       scanTimeout = number_or_default (opt_scanTimeout opts) DEFAULT_SCAN_TIMEOUT \<rparr>"

text \<open>
  A request as \<open>fetch\<close> receives it (the body before \<open>JSON.stringify\<close>; of the headers
  only the bearer token, the others being constants and a fresh random trace id), and
  what the network does with it. A fetch either rejects with an error, whose message is
  kept, or resolves to a response; \<open>response.json()\<close> either gives the parsed body or
  rejects. An elapsed scan timeout aborts the fetch, which then rejects with the
  platform's abort error.
\<close>

record request =
  url :: string
  bearer :: string
  payload :: jsval

datatype body = JsonBody jsval | JsonThrows string

record response =
  status :: nat
  json_body :: body

datatype fetch_result = Rejected string | Resolved response

text \<open>\<open>response.ok\<close>: the status is in the range 200 to 299.\<close>

definition ok :: "response \<Rightarrow> bool" where
  "ok resp = (200 \<le> status resp \<and> status resp \<le> 299)"

text \<open>
  The platform: the network, and the string conversion of a value that is not a string
  (in a template literal or as the message of an \<open>Error\<close>), which the model leaves open.
\<close>

record platform =
  fetch :: "request \<Rightarrow> fetch_result"
  ToString :: "jsval \<Rightarrow> string"

definition to_string :: "platform \<Rightarrow> jsval \<Rightarrow> string" where
  "to_string pf v = (case v of JStr s \<Rightarrow> s | _ \<Rightarrow> ToString pf v)"

text \<open>\<open>error.message\<close>.\<close>

fun message :: "exn \<Rightarrow> string" where
  "message (Error m) = m"
| "message (TypeError m) = m"
| "message (ShrikeScanError m) = m"
| "message (ShrikeBlockedError m t c v) = m"

text \<open>
  \<open>sanitizeScanResponse((await response.json()) as ScanResult)\<close>: the cast checks
  nothing. Reading \<open>raw.safe\<close> raises on \<open>null\<close>; on any other value that is not an object
  with own fields, the reads of \<open>safe\<close>, \<open>reason\<close> and the rest give \<open>undefined\<close>.
\<close>

definition sanitize_body :: "jsval \<Rightarrow> exn + obj" where
  "sanitize_body v =
     (case v of
        JObj raw \<Rightarrow> sanitizeScanResponse raw
      | JNull \<Rightarrow> Inl (TypeError ''Cannot read properties of null'')
      | JUndefined \<Rightarrow> Inl (TypeError ''Cannot read properties of undefined'')
      | _ \<Rightarrow> sanitizeScanResponse [])"

section \<open>The scan step of the wrappers\<close>

text \<open>
  \<open>_remoteScan\<close> is the same text in \<open>ShrikeOpenAI\<close>, \<open>ShrikeAnthropic\<close> and
  \<open>ShrikeGemini\<close>. \<open>remoteScan_try\<close> is its \<open>try\<close> block and \<open>remoteScan_catch\<close> its
  \<open>catch\<close> block. A scan returns its result together with the requests it sent.
\<close>

definition scan_request :: "config \<Rightarrow> string \<Rightarrow> request" where
  "scan_request cfg prompt =
     \<lparr> url = shrikeEndpoint cfg @ ''/scan'',
       bearer = shrikeApiKey cfg,
       payload = JObj [(''prompt'', JStr prompt)] \<rparr>"

definition remoteScan_try :: "config \<Rightarrow> fetch_result \<Rightarrow> exn + obj" where
  "remoteScan_try cfg r =
     (case r of
        Rejected m \<Rightarrow> Inl (Error m)
      | Resolved resp \<Rightarrow>
          if \<not> ok resp then
            if failMode cfg = FailMode_OPEN
            then Inr [(''safe'', JBool True),
                      (''reason'', JStr (''Scan API error: '' @ show_nat (status resp)))]
            else Inl (ShrikeScanError (''Scan API returned error: '' @ show_nat (status resp)))
          else
            case json_body resp of
              JsonThrows m \<Rightarrow> Inl (Error m)
            | JsonBody v \<Rightarrow> sanitize_body v)"

text \<open>The message \<open>"Scan request timed out and fail_mode is 'closed'"\<close>.\<close>

definition timeout_closed_message :: string where
  "timeout_closed_message =
     ''Scan request timed out and fail_mode is '' @ [CHR 0x27] @ ''closed'' @ [CHR 0x27]"

definition remoteScan_catch :: "config \<Rightarrow> exn \<Rightarrow> exn + obj" where
  "remoteScan_catch cfg error =
     (case error of
        ShrikeScanError m \<Rightarrow> Inl error
      | _ \<Rightarrow>
          (let errorMessage = message error in
           if str_includes errorMessage ''abort'' then
             if failMode cfg = FailMode_OPEN
             then Inr [(''safe'', JBool True), (''reason'', JStr ''Scan timeout, failing open'')]
             else Inl (ShrikeScanError timeout_closed_message)
           else if failMode cfg = FailMode_OPEN
             then Inr [(''safe'', JBool True), (''reason'', JStr (''Scan error: '' @ errorMessage))]
             else Inl (ShrikeScanError (''Scan failed: '' @ errorMessage))))"

definition remoteScan :: "config \<Rightarrow> platform \<Rightarrow> string \<Rightarrow> (exn + obj) \<times> request list" where
  "remoteScan cfg pf prompt =
     (let req = scan_request cfg prompt in
      (case remoteScan_try cfg (fetch pf req) of
         Inl error \<Rightarrow> remoteScan_catch cfg error
       | Inr scanResult \<Rightarrow> Inr scanResult,
       [req]))"

section \<open>Chat messages and content extraction (openai/client.ts, anthropic/client.ts)\<close>

text \<open>
  A content part or content block \<open>{type: string, text?: string, ...}\<close>, and a message
  \<open>{role: string, content?: string | ContentPart[] | null}\<close>. Other fields of a part
  (an image, say) play no role in the extraction.
\<close>

datatype content_part = ContentPart (part_type: string) (part_text: "string option")

datatype message_content =
    ContentUndefined
  | ContentNull
  | ContentString string
  | ContentParts "content_part list"

record chat_message =
  role :: string
  content :: message_content

text \<open>The inner loop: \<open>if (part.type === 'text' && part.text) userContents.push(part.text)\<close>.
  An absent or empty \<open>text\<close> is falsy.\<close>

fun push_parts :: "string list \<Rightarrow> content_part list \<Rightarrow> string list" where
  "push_parts userContents [] = userContents"
| "push_parts userContents (part # parts) =
     push_parts
       (case part_text part of
          Some t \<Rightarrow> if part_type part = ''text'' \<and> t \<noteq> [] then userContents @ [t] else userContents
        | None \<Rightarrow> userContents)
       parts"

text \<open>\<open>msg.content\<close> as a condition.\<close>

fun content_truthy :: "message_content \<Rightarrow> bool" where
  "content_truthy ContentUndefined = False"
| "content_truthy ContentNull = False"
| "content_truthy (ContentString s) = (s \<noteq> [])"
| "content_truthy (ContentParts ps) = True"

text \<open>The loop of \<open>ShrikeOpenAI._extractUserContent\<close>: the test is
  \<open>msg.role === 'user' && msg.content\<close>.\<close>

fun openai_userContents :: "string list \<Rightarrow> chat_message list \<Rightarrow> string list" where
  "openai_userContents userContents [] = userContents"
| "openai_userContents userContents (msg # msgs) =
     openai_userContents
       (if role msg = ''user'' \<and> content_truthy (content msg) then
          (case content msg of
             ContentString s \<Rightarrow> userContents @ [s]
           | ContentParts ps \<Rightarrow> push_parts userContents ps
           | _ \<Rightarrow> userContents)
        else userContents)
       msgs"

definition openai_extractUserContent :: "chat_message list \<Rightarrow> string" where
  "openai_extractUserContent msgs = join [CHR 0x0A] (openai_userContents [] msgs)"

text \<open>The loop of \<open>ShrikeAnthropic._extractUserContent\<close>: the test is
  \<open>msg.role === 'user'\<close> alone.\<close>

fun anthropic_userContents :: "string list \<Rightarrow> chat_message list \<Rightarrow> string list" where
  "anthropic_userContents userContents [] = userContents"
| "anthropic_userContents userContents (msg # msgs) =
     anthropic_userContents
       (if role msg = ''user'' then
          (case content msg of
             ContentString s \<Rightarrow> userContents @ [s]
           | ContentParts ps \<Rightarrow> push_parts userContents ps
           | _ \<Rightarrow> userContents)
        else userContents)
       msgs"

definition anthropic_extractUserContent :: "chat_message list \<Rightarrow> string" where
  "anthropic_extractUserContent msgs = join [CHR 0x0A] (anthropic_userContents [] msgs)"

definition no_content_verdict :: "string \<Rightarrow> obj" where
  "no_content_verdict r = [(''safe'', JBool True), (''reason'', JStr r)]"

definition openai_scanMessages ::
    "config \<Rightarrow> platform \<Rightarrow> chat_message list \<Rightarrow> (exn + obj) \<times> request list" where
  "openai_scanMessages cfg pf msgs =
     (let userContent = openai_extractUserContent msgs in
      if trim userContent = [] then (Inr (no_content_verdict ''No user content to scan''), [])
      else remoteScan cfg pf userContent)"

definition anthropic_scanMessages ::
    "config \<Rightarrow> platform \<Rightarrow> chat_message list \<Rightarrow> (exn + obj) \<times> request list" where
  "anthropic_scanMessages cfg pf msgs =
     (let userContent = anthropic_extractUserContent msgs in
      if trim userContent = [] then (Inr (no_content_verdict ''No user content to scan''), [])
      else remoteScan cfg pf userContent)"

section \<open>Gemini content (gemini/client.ts)\<close>

text \<open>
  \<open>GeminiContent = string | ContentPart[] | {parts?: ContentPart[]; text?: string}\<close>.
  The loop over an array accepts a string item as well as a part \<open>{text?: string}\<close>.
\<close>

datatype gemini_part = PartString string | Part "string option"

datatype gemini_content =
    GString string
  | GParts "gemini_part list"
  | GObject (g_text: "string option") (g_parts: "gemini_part list option")

fun push_texts :: "string list \<Rightarrow> gemini_part list \<Rightarrow> string list" where
  "push_texts texts [] = texts"
| "push_texts texts (item # items) =
     push_texts
       (case item of
          PartString s \<Rightarrow> texts @ [s]
        | Part (Some t) \<Rightarrow> if t \<noteq> [] then texts @ [t] else texts
        | Part None \<Rightarrow> texts)
       items"

text \<open>\<open>_extractContent\<close>. The recursive call is on \<open>contents.parts\<close>, an array, so it
  ends in the array branch. The last line, \<open>String(contents)\<close>, is reached by an object
  with neither a truthy \<open>text\<close> nor a \<open>parts\<close> list, whose string conversion is the text
  \<open>[object Object]\<close>.\<close>

definition gemini_extractContent :: "gemini_content \<Rightarrow> string" where
  "gemini_extractContent contents =
     (case contents of
        GString s \<Rightarrow> s
      | GParts items \<Rightarrow> join [CHR 0x0A] (push_texts [] items)
      | GObject txt parts \<Rightarrow>
          (case txt of
             Some t \<Rightarrow>
               if t \<noteq> [] then t
               else (case parts of
                       Some items \<Rightarrow> join [CHR 0x0A] (push_texts [] items)
                     | None \<Rightarrow> ''[object Object]'')
           | None \<Rightarrow>
               (case parts of
                  Some items \<Rightarrow> join [CHR 0x0A] (push_texts [] items)
                | None \<Rightarrow> ''[object Object]'')))"

definition gemini_scanContent ::
    "config \<Rightarrow> platform \<Rightarrow> gemini_content \<Rightarrow> (exn + obj) \<times> request list" where
  "gemini_scanContent cfg pf contents =
     (let textContent = gemini_extractContent contents in
      if trim textContent = [] then (Inr (no_content_verdict ''No text content to scan''), [])
      else remoteScan cfg pf textContent)"

section \<open>Generation calls\<close>

text \<open>
  What a generation call did: its result (a thrown error or the provider's response),
  the scan requests it sent and the requests it passed to the wrapped provider SDK, in
  order. The provider is a function from its request to its response or native error.
\<close>

record ('p, 'r) outcome =
  result :: "exn + 'r"
  fetches :: "request list"
  provider_calls :: "'p list"

record 'a openai_params =
  messages :: "chat_message list"
  openai_rest :: 'a

record 'a anthropic_params =
  anthropic_messages :: "chat_message list"
  stream :: "bool option"
  anthropic_rest :: 'a

text \<open>\<open>CompletionsNamespace.create\<close> (OpenAI).\<close>

definition openai_create ::
    "config \<Rightarrow> platform \<Rightarrow> ('a openai_params \<Rightarrow> exn + 'r) \<Rightarrow> 'a openai_params
       \<Rightarrow> ('a openai_params, 'r) outcome" where
  "openai_create cfg pf provider params =
     (case openai_scanMessages cfg pf (messages params) of
        (Inl e, reqs) \<Rightarrow> \<lparr> result = Inl e, fetches = reqs, provider_calls = [] \<rparr>
      | (Inr scanResult, reqs) \<Rightarrow>
          (if \<not> truthy (get scanResult ''safe'') then
             \<lparr> result = Inl (ShrikeBlockedError
                  (''Request blocked: '' @
                     to_string pf (js_or (get scanResult ''reason'') (JStr ''Security threat detected'')))
                  (get scanResult ''threat_type'')
                  (get scanResult ''confidence'')
                  (js_or (get scanResult ''violations'') (JArr []))),
               fetches = reqs, provider_calls = [] \<rparr>
           else \<lparr> result = provider params, fetches = reqs, provider_calls = [params] \<rparr>))"

text \<open>\<open>MessagesNamespace.create\<close> (Anthropic): the provider receives
  \<open>{...params, stream: false}\<close>.\<close>

definition anthropic_create ::
    "config \<Rightarrow> platform \<Rightarrow> ('a anthropic_params \<Rightarrow> exn + 'r) \<Rightarrow> 'a anthropic_params
       \<Rightarrow> ('a anthropic_params, 'r) outcome" where
  "anthropic_create cfg pf provider params =
     (case anthropic_scanMessages cfg pf (anthropic_messages params) of
        (Inl e, reqs) \<Rightarrow> \<lparr> result = Inl e, fetches = reqs, provider_calls = [] \<rparr>
      | (Inr scanResult, reqs) \<Rightarrow>
          (if \<not> truthy (get scanResult ''safe'') then
             \<lparr> result = Inl (ShrikeBlockedError
                  (''Request blocked: '' @
                     to_string pf (js_or (get scanResult ''reason'') (JStr ''Security threat detected'')))
                  (get scanResult ''threat_type'')
                  (get scanResult ''confidence'')
                  (js_or (get scanResult ''violations'') (JArr []))),
               fetches = reqs, provider_calls = [] \<rparr>
           else \<lparr> result = provider (params\<lparr>stream := Some False\<rparr>), fetches = reqs,
                  provider_calls = [params\<lparr>stream := Some False\<rparr>] \<rparr>))"

text \<open>
  The four Gemini entry points, \<open>ShrikeGenerativeModel.generateContent\<close> and
  \<open>generateContentStream\<close>, \<open>ShrikeChatSession.sendMessage\<close> and \<open>sendMessageStream\<close>,
  have the same body up to the method of the wrapped model or chat session that they
  call last; \<open>native\<close> is that method.
\<close>

definition gemini_guarded ::
    "config \<Rightarrow> platform \<Rightarrow> (gemini_content \<Rightarrow> exn + 'r) \<Rightarrow> gemini_content
       \<Rightarrow> (gemini_content, 'r) outcome" where
  "gemini_guarded cfg pf native contents =
     (case gemini_scanContent cfg pf contents of
        (Inl e, reqs) \<Rightarrow> \<lparr> result = Inl e, fetches = reqs, provider_calls = [] \<rparr>
      | (Inr scanResult, reqs) \<Rightarrow>
          (if \<not> truthy (get scanResult ''safe'') then
             \<lparr> result = Inl (ShrikeBlockedError
                  (to_string pf (js_or (get scanResult ''reason'') (JStr ''Request blocked by Shrike'')))
                  (get scanResult ''threat_type'')
                  (get scanResult ''confidence'')
                  (js_or (get scanResult ''violations'') (JArr []))),
               fetches = reqs, provider_calls = [] \<rparr>
           else \<lparr> result = native contents, fetches = reqs, provider_calls = [contents] \<rparr>))"

text \<open>The wrapped model and the wrapped chat session, as the methods the wrapper calls.\<close>

record 'r google_model =
  model_generateContent :: "gemini_content \<Rightarrow> exn + 'r"
  model_generateContentStream :: "gemini_content \<Rightarrow> exn + 'r"

record 'r google_chat =
  chat_sendMessage :: "gemini_content \<Rightarrow> exn + 'r"
  chat_sendMessageStream :: "gemini_content \<Rightarrow> exn + 'r"

definition generateContent ::
    "config \<Rightarrow> platform \<Rightarrow> 'r google_model \<Rightarrow> gemini_content \<Rightarrow> (gemini_content, 'r) outcome" where
  "generateContent cfg pf model contents =
     gemini_guarded cfg pf (model_generateContent model) contents"

definition generateContentStream ::
    "config \<Rightarrow> platform \<Rightarrow> 'r google_model \<Rightarrow> gemini_content \<Rightarrow> (gemini_content, 'r) outcome" where
  "generateContentStream cfg pf model contents =
     gemini_guarded cfg pf (model_generateContentStream model) contents"

definition sendMessage ::
    "config \<Rightarrow> platform \<Rightarrow> 'r google_chat \<Rightarrow> gemini_content \<Rightarrow> (gemini_content, 'r) outcome" where
  "sendMessage cfg pf chat contents =
     gemini_guarded cfg pf (chat_sendMessage chat) contents"

definition sendMessageStream ::
    "config \<Rightarrow> platform \<Rightarrow> 'r google_chat \<Rightarrow> gemini_content \<Rightarrow> (gemini_content, 'r) outcome" where
  "sendMessageStream cfg pf chat contents =
     gemini_guarded cfg pf (chat_sendMessageStream chat) contents"

section \<open>The scan client (scanner.ts)\<close>

definition MAX_CONTENT_SIZE :: nat where
  "MAX_CONTENT_SIZE = 100 * 1024"

text \<open>\<open>ScanClient\<close> holds an API key, an endpoint and a timeout; it has no fail mode.\<close>

record scan_client =
  client_apiKey :: string
  client_endpoint :: string
  client_timeout :: nat

definition ScanClient :: "string \<Rightarrow> string option \<Rightarrow> nat option \<Rightarrow> scan_client" where
  "ScanClient apiKey endpoint timeout =
     \<lparr> client_apiKey = apiKey,
       client_endpoint = strip_trailing_slash (string_or_default endpoint DEFAULT_ENDPOINT),
       client_timeout = number_or_default timeout DEFAULT_SCAN_TIMEOUT \<rparr>"

text \<open>The verdict the three methods build when the input is too large; \<open>what\<close> and
  \<open>subject\<close> are the words in which their texts differ.\<close>

definition size_limit_verdict :: "string \<Rightarrow> string \<Rightarrow> nat \<Rightarrow> obj" where
  "size_limit_verdict what subject totalSize =
     [(''safe'', JBool False),
      (''reason'', JStr (what @ '' too large ('' @ show_nat (round_div totalSize 1024) @ ''KB > ''
                          @ show_nat (MAX_CONTENT_SIZE div 1024) @ ''KB limit)'')),
      (''threat_type'', JStr ''size_limit_exceeded''),
      (''confidence'', JNum 1),
      (''violations'', JArr [JObj [(''type'', JStr ''size_limit''),
          (''description'', JStr (subject @ '' exceeds maximum size of ''
                                   @ show_nat (MAX_CONTENT_SIZE div 1024) @ ''KB''))]])]"

text \<open>\<open>x?.length || 0\<close>.\<close>

definition length_or_zero :: "string option \<Rightarrow> nat" where
  "length_or_zero x = (case x of Some s \<Rightarrow> length s | None \<Rightarrow> 0)"

text \<open>The \<open>try\<close> block shared by the three methods; there is no \<open>catch\<close>: a rejected fetch
  and the error on a response that is not ok both reach the caller.\<close>

definition client_send :: "string \<Rightarrow> fetch_result \<Rightarrow> exn + obj" where
  "client_send label r =
     (case r of
        Rejected m \<Rightarrow> Inl (Error m)
      | Resolved resp \<Rightarrow>
          (if \<not> ok resp then Inl (Error (label @ '' API returned error: '' @ show_nat (status resp)))
           else (case json_body resp of
                   JsonThrows m \<Rightarrow> Inl (Error m)
                 | JsonBody v \<Rightarrow> sanitize_body v)))"

definition scan ::
    "scan_client \<Rightarrow> platform \<Rightarrow> string \<Rightarrow> string option \<Rightarrow> (exn + obj) \<times> request list" where
  "scan client pf prompt context =
     (let totalSize = length prompt + length_or_zero context in
      if totalSize > MAX_CONTENT_SIZE then
        (Inr (size_limit_verdict ''Content'' ''Content'' totalSize), [])
      else
        (let req = \<lparr> url = client_endpoint client @ ''/scan'',
                     bearer = client_apiKey client,
                     payload = JObj ((''prompt'', JStr prompt) #
                       (case context of
                          Some c \<Rightarrow> if c \<noteq> [] then [(''context'', JStr c)] else []
                        | None \<Rightarrow> [])) \<rparr>
         in (client_send ''Scan'' (fetch pf req), [req])))"

definition scanSql ::
    "scan_client \<Rightarrow> platform \<Rightarrow> string \<Rightarrow> string option \<Rightarrow> bool
       \<Rightarrow> (exn + obj) \<times> request list" where
  "scanSql client pf query database allowDestructive =
     (if length query > MAX_CONTENT_SIZE then
        (Inr (size_limit_verdict ''SQL query'' ''Query'' (length query)), [])
      else
        (let req = \<lparr> url = client_endpoint client @ ''/api/scan/specialized'',
                     bearer = client_apiKey client,
                     payload = JObj [(''content'', JStr query),
                       (''content_type'', JStr ''sql''),
                       (''context'', JObj [(''database'', JStr (string_or_default database [])),
                          (''allow_destructive'',
                             JStr (if allowDestructive then ''true'' else ''false''))])] \<rparr>
         in (client_send ''SQL scan'' (fetch pf req), [req])))"

definition scanFile ::
    "scan_client \<Rightarrow> platform \<Rightarrow> string \<Rightarrow> string option \<Rightarrow> (exn + obj) \<times> request list" where
  "scanFile client pf path file_content =
     (let totalSize = length path + length_or_zero file_content in
      if totalSize > MAX_CONTENT_SIZE then
        (Inr (size_limit_verdict ''File content'' ''Content'' totalSize), [])
      else
        (let truthy_content = (case file_content of Some c \<Rightarrow> c \<noteq> [] | None \<Rightarrow> False);
             req = \<lparr> url = client_endpoint client @ ''/api/scan/specialized'',
                     bearer = client_apiKey client,
                     payload = JObj ([(''content'', JStr path),
                         (''content_type'',
                            JStr (if truthy_content then ''file_content'' else ''file_path''))] @
                       (case file_content of
                          Some c \<Rightarrow> if c \<noteq> [] then [(''context'', JObj [(''file_content'', JStr c)])]
                                    else []
                        | None \<Rightarrow> [])) \<rparr>
         in (client_send ''File scan'' (fetch pf req), [req])))"

section \<open>Notions of the specification\<close>

text \<open>
  The extraction as the specification words it: the user-role text spans of a message
  list, in order, are the flat string contents of the user-role messages and, among the
  typed blocks of a user-role message, the texts of the blocks of type \<open>text\<close>; the
  extracted content is their concatenation, joined by newlines.
\<close>

definition block_spans :: "content_part list \<Rightarrow> string list" where
  "block_spans ps =
     concat (map (\<lambda>p. case part_text p of
                         Some t \<Rightarrow> if part_type p = ''text'' then [t] else []
                       | None \<Rightarrow> []) ps)"

definition message_spans :: "chat_message \<Rightarrow> string list" where
  "message_spans msg =
     (if role msg = ''user'' then
        (case content msg of
           ContentString s \<Rightarrow> [s]
         | ContentParts ps \<Rightarrow> block_spans ps
         | _ \<Rightarrow> [])
      else [])"

definition user_text_spans :: "chat_message list \<Rightarrow> string list" where
  "user_text_spans msgs = concat (map message_spans msgs)"

definition extract_spec :: "chat_message list \<Rightarrow> string" where
  "extract_spec msgs = join [CHR 0x0A] (user_text_spans msgs)"

text \<open>The spans with the empty texts of text blocks left out, flat strings kept as they
  are.\<close>

definition message_spans_nonempty_blocks :: "chat_message \<Rightarrow> string list" where
  "message_spans_nonempty_blocks msg =
     (if role msg = ''user'' then
        (case content msg of
           ContentString s \<Rightarrow> [s]
         | ContentParts ps \<Rightarrow> filter (\<lambda>t. t \<noteq> []) (block_spans ps)
         | _ \<Rightarrow> [])
      else [])"

text \<open>
  A scan infrastructure failure, seen from \<open>_remoteScan\<close>: the fetch rejects (network
  error, abort on timeout), the response is not ok, or reading and sanitizing the body
  raises.
\<close>

definition scan_failed :: "fetch_result \<Rightarrow> bool" where
  "scan_failed r =
     (case r of
        Rejected m \<Rightarrow> True
      | Resolved resp \<Rightarrow>
          \<not> ok resp \<or>
          (case json_body resp of JsonThrows m \<Rightarrow> True | JsonBody v \<Rightarrow> isl (sanitize_body v)))"

text \<open>An input of 102401 characters, one more than the limit of the scan client.\<close>

definition oversized_prompt :: string where
  "oversized_prompt = replicate 102401 (CHR ''a'')"

section \<open>Scenarios of the test suite\<close>

text \<open>
  The fixtures of the unit tests: a wrapper configuration with a given fail mode, a scan
  service that answers every request with a given status and body, one whose fetch
  rejects with a given message, the payload of the test \<open>should include threat details
  in blocked error\<close>, a user message, and a provider that returns a fixed response.
\<close>

definition test_options :: "string option \<Rightarrow> options" where
  "test_options fm =
     \<lparr> opt_shrikeApiKey = Some ''shrike-test'', opt_shrikeEndpoint = None,
       opt_failMode = fm, opt_scanTimeout = None \<rparr>"

definition backend_answers :: "nat \<Rightarrow> jsval \<Rightarrow> platform" where
  "backend_answers st b =
     \<lparr> fetch = (\<lambda>req. Resolved \<lparr> status = st, json_body = JsonBody b \<rparr>),
       ToString = (\<lambda>v. ''[value]'') \<rparr>"

definition backend_rejects :: "string \<Rightarrow> platform" where
  "backend_rejects m = \<lparr> fetch = (\<lambda>req. Rejected m), ToString = (\<lambda>v. ''[value]'') \<rparr>"

definition pii_payload :: obj where
  "pii_payload =
     [(''safe'', JBool False), (''reason'', JStr ''PII detected''),
      (''threat_type'', JStr ''pii''), (''confidence'', JNum (99 / 100)),
      (''violations'', JArr [JObj [(''type'', JStr ''ssn''), (''value'', JStr ''***-**-1234'')]])]"

definition user_message :: "string \<Rightarrow> chat_message" where
  "user_message s = \<lparr> role = ''user'', content = ContentString s \<rparr>"

definition assistant_message :: "string \<Rightarrow> chat_message" where
  "assistant_message s = \<lparr> role = ''assistant'', content = ContentString s \<rparr>"

definition test_provider :: "'p \<Rightarrow> exn + string" where
  "test_provider p = Inr ''response''"

definition test_model :: "string google_model" where
  "test_model = \<lparr> model_generateContent = test_provider,
                  model_generateContentStream = test_provider \<rparr>"

definition test_chat :: "string google_chat" where
  "test_chat = \<lparr> chat_sendMessage = test_provider, chat_sendMessageStream = test_provider \<rparr>"

text \<open>The prompt of that test, and the verdict that the sanitizer makes of its payload.\<close>

definition ssn_prompt :: string where
  "ssn_prompt = ''My SSN is 123-45-6789''"

definition pii_verdict :: obj where
  "pii_verdict =
     [(''safe'', JBool False), (''threat_type'', JStr ''pii_exposure''),
      (''severity'', JStr ''high''), (''confidence'', JStr ''high''),
      (''reason'', JStr ''PII detected''),
      (''guidance'', JStr ''This content contains personally identifiable information.'')]"

section \<open>Properties of the sanitizer\<close>


lemma unknown_guidance:
  "table_get THREAT_GUIDANCE ''unknown'' =
     JStr ''A security concern was detected. Please review the content.''"
  by code_simp

lemma js_or_truthy: "truthy b \<Longrightarrow> truthy (js_or a b)"
  by (simp add: js_or_def)

lemma sanitize_safe:
  "get raw ''safe'' \<noteq> JBool False \<Longrightarrow>
   sanitizeScanResponse raw =
     Inr [(''safe'', JBool True), (''reason'', js_or (get raw ''reason'') (JStr []))]"
  by (simp add: sanitizeScanResponse_def)

lemma sanitize_unsafe:
  assumes "get raw ''safe'' = JBool False" and "sanitizeScanResponse raw = Inr out"
  shows "\<exists>t s g. truthy g \<and> normalizeThreatType (get raw ''threat_type'') = Inr t \<and>
     out = [(''safe'', JBool False), (''threat_type'', t), (''severity'', s),
      (''confidence'', JStr (bucketConfidence (number_or_undefined (get raw ''confidence'')))),
      (''reason'', js_or (get raw ''reason'') g), (''guidance'', g)]"
proof -
  from assms obtain t where t: "normalizeThreatType (get raw ''threat_type'') = Inr t"
    by (auto simp add: sanitizeScanResponse_def split: sum.splits)
  let ?g = "js_or (table_get_val THREAT_GUIDANCE t) (table_get THREAT_GUIDANCE ''unknown'')"
  have "truthy ?g" by (rule js_or_truthy) (simp add: unknown_guidance)
  moreover from assms t have
    "out = [(''safe'', JBool False), (''threat_type'', t),
      (''severity'', deriveSeverity t (string_or_undefined (get raw ''severity''))),
      (''confidence'', JStr (bucketConfidence (number_or_undefined (get raw ''confidence'')))),
      (''reason'', js_or (get raw ''reason'') ?g), (''guidance'', ?g)]"
    by (simp add: sanitizeScanResponse_def Let_def)
  ultimately show ?thesis using t by blast
qed


text \<open>Two payloads of the kind the scan service sends, and what the sanitizer makes of
  them.\<close>

lemma sanitize_sql_example:
  "sanitizeScanResponse
     [(''safe'', JBool False), (''threat_type'', JStr ''tautology_or''),
      (''confidence'', JNum (97 / 100)), (''detected_by'', JStr ''L3''),
      (''matched_pattern'', JStr ''x''), (''scan_stage'', JNum 3), (''policy_id'', JStr ''p1'')]
   = Inr [(''safe'', JBool False), (''threat_type'', JStr ''sql_injection''),
          (''severity'', JStr ''critical''), (''confidence'', JStr ''high''),
          (''reason'', JStr ''This query contains potentially dangerous SQL patterns.''),
          (''guidance'', JStr ''This query contains potentially dangerous SQL patterns.'')]"
  by code_simp

lemma sanitize_pii_example:
  "sanitizeScanResponse
     [(''safe'', JBool False), (''reason'', JStr ''PII detected''),
      (''threat_type'', JStr ''pii''), (''confidence'', JNum (99 / 100)),
      (''violations'', JArr [JObj [(''type'', JStr ''ssn''), (''value'', JStr ''***-**-1234'')]])]
   = Inr [(''safe'', JBool False), (''threat_type'', JStr ''pii_exposure''),
          (''severity'', JStr ''high''), (''confidence'', JStr ''high''),
          (''reason'', JStr ''PII detected''),
          (''guidance'', JStr ''This content contains personally identifiable information.'')]"
  by code_simp



text \<open>
  Claim C2. Whatever the payload, a result of \<open>sanitizeScanResponse\<close> has only fields of
  the public vocabulary: a safe result has exactly the fields \<open>safe\<close> (true) and \<open>reason\<close>,
  so no \<open>threat_type\<close>, \<open>severity\<close> or \<open>guidance\<close>; an unsafe result has exactly the fields
  \<open>safe\<close>, \<open>threat_type\<close>, \<open>severity\<close>, \<open>confidence\<close>, \<open>reason\<close> and \<open>guidance\<close>; and no
  internal field (\<open>detected_by\<close>, \<open>matched_pattern\<close>, \<open>scan_stage\<close>, \<open>policy_id\<close> and the
  others of \<open>INTERNAL_FIELDS\<close>) is a field of the result.
\<close>

theorem sanitize_public_fields:
  assumes "sanitizeScanResponse raw = Inr out"
  shows "(get raw ''safe'' \<noteq> JBool False \<longrightarrow>
            field_names out = [''safe'', ''reason''] \<and> get out ''safe'' = JBool True
            \<and> ''threat_type'' \<notin> set (field_names out) \<and> ''severity'' \<notin> set (field_names out)
            \<and> ''guidance'' \<notin> set (field_names out))
       \<and> (get raw ''safe'' = JBool False \<longrightarrow>
            field_names out =
              [''safe'', ''threat_type'', ''severity'', ''confidence'', ''reason'', ''guidance'']
            \<and> get out ''safe'' = JBool False)
       \<and> (\<forall>k \<in> set INTERNAL_FIELDS. k \<notin> set (field_names out))"
proof (cases "get raw ''safe'' = JBool False")
  case True
  from sanitize_unsafe [OF True assms] obtain t s g where
    "out = [(''safe'', JBool False), (''threat_type'', t), (''severity'', s),
      (''confidence'', JStr (bucketConfidence (number_or_undefined (get raw ''confidence'')))),
      (''reason'', js_or (get raw ''reason'') g), (''guidance'', g)]" by blast
  with True show ?thesis by (simp add: field_names_def get_def INTERNAL_FIELDS_def)
next
  case False
  from sanitize_safe [OF False] assms have
    "out = [(''safe'', JBool True), (''reason'', js_or (get raw ''reason'') (JStr []))]" by simp
  with False show ?thesis by (simp add: field_names_def get_def INTERNAL_FIELDS_def)
qed

theorem sanitize_public_fields_witness:
  "sanitizeScanResponse
     [(''safe'', JBool False), (''threat_type'', JStr ''tautology_or''),
      (''confidence'', JNum (97 / 100)), (''detected_by'', JStr ''L3''),
      (''matched_pattern'', JStr ''x''), (''scan_stage'', JNum 3), (''policy_id'', JStr ''p1'')]
   = Inr [(''safe'', JBool False), (''threat_type'', JStr ''sql_injection''),
          (''severity'', JStr ''critical''), (''confidence'', JStr ''high''),
          (''reason'', JStr ''This query contains potentially dangerous SQL patterns.''),
          (''guidance'', JStr ''This query contains potentially dangerous SQL patterns.'')]
   \<and> field_names [(''safe'', JBool False), (''threat_type'', JStr ''sql_injection''),
          (''severity'', JStr ''critical''), (''confidence'', JStr ''high''),
          (''reason'', JStr ''This query contains potentially dangerous SQL patterns.''),
          (''guidance'', JStr ''This query contains potentially dangerous SQL patterns.'')]
       = [''safe'', ''threat_type'', ''severity'', ''confidence'', ''reason'', ''guidance'']
   \<and> ''detected_by'' \<notin> set (field_names
         [(''safe'', JBool False), (''threat_type'', JStr ''sql_injection''),
          (''severity'', JStr ''critical''), (''confidence'', JStr ''high''),
          (''reason'', JStr ''This query contains potentially dangerous SQL patterns.''),
          (''guidance'', JStr ''This query contains potentially dangerous SQL patterns.'')])"
  using sanitize_public_fields [OF sanitize_sql_example] sanitize_sql_example
  by (simp add: get_def INTERNAL_FIELDS_def)



text \<open>The examples of the specification: 0.95 is high, 0.75 medium, 0.5 low.\<close>

lemma bucketConfidence_examples:
  "bucketConfidence (Some (95 / 100)) = ''high''"
  "bucketConfidence (Some (75 / 100)) = ''medium''"
  "bucketConfidence (Some (1 / 2)) = ''low''"
  "bucketConfidence None = ''medium''"
  by (simp_all add: bucketConfidence_def)

text \<open>
  Claim C9 says that \<open>normalizeThreatType\<close> is idempotent on every string and sends every
  unrecognized string to \<open>unknown\<close>. The table is read with \<open>THREAT_TYPE_MAP[normalized]\<close>,
  which also finds what the table inherits from \<open>Object.prototype\<close>: for the string
  \<open>constructor\<close> the function returns that inherited function instead of \<open>unknown\<close>, and
  applied to this result it raises a \<open>TypeError\<close>, the result having no \<open>toLowerCase\<close>.
  The same happens for \<open>__proto__\<close>.
\<close>

theorem normalizeThreatType_inherited_key:
  "normalizeThreatType (JStr ''constructor'') = Inr (JBuiltin ''constructor'')
   \<and> normalizeThreatType (JBuiltin ''constructor'')
       = Inl (TypeError ''rawType.toLowerCase is not a function'')
   \<and> normalizeThreatType (JStr ''__proto__'') = Inr (JBuiltin ''__proto__'')
   \<and> normalizeThreatType (JStr ''no_such_threat'') = Inr (JStr ''unknown'')"
  by code_simp

text \<open>Away from the inherited names the function is idempotent: its results are the
  public threat types, and each of them is a fixed point.\<close>

lemma public_threat_types_fixed:
  "list_all (\<lambda>t. normalizeThreatType (JStr t) = Inr (JStr t)) public_threat_types"
  by code_simp

lemma table_values_public:
  "list_all (\<lambda>t. t \<in> set public_threat_types) (map snd THREAT_TYPE_MAP)"
  by code_simp

lemma normalizeThreatType_range:
  assumes "replace_hyphens (toLowerCase s) \<notin> set OBJECT_PROTOTYPE_KEYS"
  shows "\<exists>t \<in> set public_threat_types. normalizeThreatType (JStr s) = Inr (JStr t)"
proof -
  have u: "''unknown'' \<in> set public_threat_types"
    by code_simp
  show ?thesis
  proof (cases "s = []")
    case True
    with u show ?thesis by (auto simp add: normalizeThreatType_def)
  next
    case False
    show ?thesis
    proof (cases "map_of THREAT_TYPE_MAP (replace_hyphens (toLowerCase s))")
      case None
      with False assms have "normalizeThreatType (JStr s) = Inr (JStr ''unknown'')"
        by (simp add: normalizeThreatType_def table_get_def js_or_def)
      with u show ?thesis by blast
    next
      case (Some t)
      then have "t \<in> set (map snd THREAT_TYPE_MAP)"
        by (metis map_of_SomeD set_zip_rightD zip_map_fst_snd)
      with table_values_public have t: "t \<in> set public_threat_types"
        unfolding list_all_iff by blast
      from Some False have
        "normalizeThreatType (JStr s) = Inr (JStr (if t \<noteq> [] then t else ''unknown''))"
        by (simp add: normalizeThreatType_def table_get_def js_or_def)
      with t u show ?thesis by (cases "t = []") auto
    qed
  qed
qed

lemma normalizeThreatType_idempotent_off_prototype:
  assumes "replace_hyphens (toLowerCase s) \<notin> set OBJECT_PROTOTYPE_KEYS"
    and "normalizeThreatType (JStr s) = Inr v"
  shows "normalizeThreatType v = Inr v"
proof -
  from normalizeThreatType_range [OF assms(1)] assms(2) obtain t where
    "t \<in> set public_threat_types" and "v = JStr t" by auto
  with public_threat_types_fixed show ?thesis
    unfolding list_all_iff by blast
qed

section \<open>Properties of the scan step\<close>

lemma trim_empty_iff: "trim s = [] \<longleftrightarrow> (\<forall>c \<in> set s. is_whitespace c)"
proof
  assume "trim s = []"
  then have a: "\<forall>c \<in> set (dropWhile is_whitespace s). is_whitespace c"
    by (simp add: trim_def dropWhile_eq_Nil_conv)
  have "dropWhile is_whitespace s = []"
  proof (rule ccontr)
    assume n: "dropWhile is_whitespace s \<noteq> []"
    then have "\<not> is_whitespace (hd (dropWhile is_whitespace s))" by (rule hd_dropWhile)
    moreover from n have "hd (dropWhile is_whitespace s) \<in> set (dropWhile is_whitespace s)"
      by simp
    ultimately show False using a by blast
  qed
  then show "\<forall>c \<in> set s. is_whitespace c" by (simp add: dropWhile_eq_Nil_conv)
next
  assume "\<forall>c \<in> set s. is_whitespace c"
  then show "trim s = []"
    by (auto simp add: trim_def dropWhile_eq_Nil_conv dest: set_dropWhileD)
qed

lemma remoteScan_fetches: "snd (remoteScan cfg pf p) = [scan_request cfg p]"
  by (simp add: remoteScan_def Let_def)





lemma remoteScan_catch_closed:
  assumes "failMode cfg \<noteq> FailMode_OPEN"
  shows "\<exists>m. remoteScan_catch cfg e = Inl (ShrikeScanError m)"
  using assms by (cases e) (simp_all add: remoteScan_catch_def Let_def)

lemma remoteScan_try_failed:
  assumes "scan_failed r" and "failMode cfg \<noteq> FailMode_OPEN"
  shows "\<exists>e. remoteScan_try cfg r = Inl e"
proof (cases r)
  case (Rejected m)
  then show ?thesis by (simp add: remoteScan_try_def)
next
  case (Resolved resp)
  show ?thesis
  proof (cases "ok resp")
    case False
    with Resolved assms show ?thesis by (simp add: remoteScan_try_def)
  next
    case True
    show ?thesis
    proof (cases "json_body resp")
      case (JsonThrows m)
      with True Resolved show ?thesis by (simp add: remoteScan_try_def)
    next
      case (JsonBody b)
      with True Resolved assms(1) have "isl (sanitize_body b)" by (simp add: scan_failed_def)
      then obtain e where "sanitize_body b = Inl e" by (cases "sanitize_body b") auto
      with JsonBody True Resolved show ?thesis by (simp add: remoteScan_try_def)
    qed
  qed
qed

lemma remoteScan_failed_closed:
  assumes "scan_failed (fetch pf (scan_request cfg p))" and "failMode cfg \<noteq> FailMode_OPEN"
  shows "\<exists>m. remoteScan cfg pf p = (Inl (ShrikeScanError m), [scan_request cfg p])"
proof -
  from remoteScan_try_failed [OF assms] obtain e where
    "remoteScan_try cfg (fetch pf (scan_request cfg p)) = Inl e" by blast
  moreover from remoteScan_catch_closed [OF assms(2)] obtain m where
    "remoteScan_catch cfg e = Inl (ShrikeScanError m)" by blast
  ultimately show ?thesis by (simp add: remoteScan_def Let_def)
qed

text \<open>The two shapes of a verdict that the scan step of a wrapper can return: the safe
  one, and the sanitized unsafe one, whose reason is truthy. Neither has a field
  \<open>violations\<close>.\<close>

lemma sanitize_shape:
  assumes "sanitizeScanResponse raw = Inr v"
  shows "(\<exists>r. v = [(''safe'', JBool True), (''reason'', r)]) \<or>
         (\<exists>t s c r g. truthy r \<and>
            v = [(''safe'', JBool False), (''threat_type'', t), (''severity'', s),
                 (''confidence'', JStr c), (''reason'', r), (''guidance'', g)])"
proof (cases "get raw ''safe'' = JBool False")
  case True
  from sanitize_unsafe [OF True assms] obtain t s g where
    g: "truthy g" and v: "v = [(''safe'', JBool False), (''threat_type'', t), (''severity'', s),
      (''confidence'', JStr (bucketConfidence (number_or_undefined (get raw ''confidence'')))),
      (''reason'', js_or (get raw ''reason'') g), (''guidance'', g)]" by blast
  from g have "truthy (js_or (get raw ''reason'') g)" by (rule js_or_truthy)
  with v show ?thesis by blast
next
  case False
  from sanitize_safe [OF False] assms show ?thesis by simp
qed

lemma sanitize_body_shape:
  assumes "sanitize_body b = Inr v"
  shows "(\<exists>r. v = [(''safe'', JBool True), (''reason'', r)]) \<or>
         (\<exists>t s c r g. truthy r \<and>
            v = [(''safe'', JBool False), (''threat_type'', t), (''severity'', s),
                 (''confidence'', JStr c), (''reason'', r), (''guidance'', g)])"
proof -
  from assms obtain raw where "sanitizeScanResponse raw = Inr v"
    by (cases b) (auto simp add: sanitize_body_def)
  then show ?thesis by (rule sanitize_shape)
qed

lemma remoteScan_try_shape:
  assumes "remoteScan_try cfg r = Inr v"
  shows "(\<exists>r. v = [(''safe'', JBool True), (''reason'', r)]) \<or>
         (\<exists>t s c r g. truthy r \<and>
            v = [(''safe'', JBool False), (''threat_type'', t), (''severity'', s),
                 (''confidence'', JStr c), (''reason'', r), (''guidance'', g)])"
proof (cases r)
  case (Rejected m)
  with assms show ?thesis by (simp add: remoteScan_try_def)
next
  case (Resolved resp)
  show ?thesis
  proof (cases "ok resp")
    case False
    with Resolved assms show ?thesis
      by (auto simp add: remoteScan_try_def split: if_splits)
  next
    case True
    show ?thesis
    proof (cases "json_body resp")
      case (JsonThrows m)
      with True Resolved assms show ?thesis by (simp add: remoteScan_try_def)
    next
      case (JsonBody b)
      with True Resolved assms have "sanitize_body b = Inr v" by (simp add: remoteScan_try_def)
      then show ?thesis by (rule sanitize_body_shape)
    qed
  qed
qed

lemma remoteScan_catch_shape:
  assumes "remoteScan_catch cfg e = Inr v"
  shows "\<exists>r. v = [(''safe'', JBool True), (''reason'', r)]"
  using assms
  by (cases e) (auto simp add: remoteScan_catch_def Let_def split: if_splits)

lemma remoteScan_shape:
  assumes "remoteScan cfg pf p = (Inr v, reqs)"
  shows "(\<exists>r. v = [(''safe'', JBool True), (''reason'', r)]) \<or>
         (\<exists>t s c r g. truthy r \<and>
            v = [(''safe'', JBool False), (''threat_type'', t), (''severity'', s),
                 (''confidence'', JStr c), (''reason'', r), (''guidance'', g)])"
proof (cases "remoteScan_try cfg (fetch pf (scan_request cfg p))")
  case (Inl e)
  with assms have "remoteScan_catch cfg e = Inr v" by (simp add: remoteScan_def Let_def)
  then show ?thesis by (auto dest: remoteScan_catch_shape)
next
  case (Inr w)
  with assms have "w = v" by (simp add: remoteScan_def Let_def)
  with Inr show ?thesis by (auto dest: remoteScan_try_shape)
qed

text \<open>What an unsafe verdict of one of these shapes gives when its fields are read.\<close>

lemma unsafe_shape_reads:
  assumes "(\<exists>r. v = [(''safe'', JBool True), (''reason'', r)]) \<or>
         (\<exists>t s c r g. truthy r \<and>
            v = [(''safe'', JBool False), (''threat_type'', t), (''severity'', s),
                 (''confidence'', JStr c), (''reason'', r), (''guidance'', g)])"
    and "\<not> truthy (get v ''safe'')"
  shows "truthy (get v ''reason'') \<and> get v ''violations'' = JUndefined"
  using assms by (auto simp add: get_def)

lemma openai_scan_shape:
  assumes "openai_scanMessages cfg pf msgs = (Inr v, reqs)" and "\<not> truthy (get v ''safe'')"
  shows "truthy (get v ''reason'') \<and> get v ''violations'' = JUndefined"
proof (cases "trim (openai_extractUserContent msgs) = []")
  case True
  with assms show ?thesis
    by (auto simp add: openai_scanMessages_def no_content_verdict_def get_def)
next
  case False
  with assms(1) have "remoteScan cfg pf (openai_extractUserContent msgs) = (Inr v, reqs)"
    by (simp add: openai_scanMessages_def)
  from remoteScan_shape [OF this] assms(2) show ?thesis by (rule unsafe_shape_reads)
qed

lemma anthropic_scan_shape:
  assumes "anthropic_scanMessages cfg pf msgs = (Inr v, reqs)" and "\<not> truthy (get v ''safe'')"
  shows "truthy (get v ''reason'') \<and> get v ''violations'' = JUndefined"
proof (cases "trim (anthropic_extractUserContent msgs) = []")
  case True
  with assms show ?thesis
    by (auto simp add: anthropic_scanMessages_def no_content_verdict_def get_def)
next
  case False
  with assms(1) have "remoteScan cfg pf (anthropic_extractUserContent msgs) = (Inr v, reqs)"
    by (simp add: anthropic_scanMessages_def)
  from remoteScan_shape [OF this] assms(2) show ?thesis by (rule unsafe_shape_reads)
qed

lemma gemini_scan_shape:
  assumes "gemini_scanContent cfg pf contents = (Inr v, reqs)" and "\<not> truthy (get v ''safe'')"
  shows "truthy (get v ''reason'') \<and> get v ''violations'' = JUndefined"
proof (cases "trim (gemini_extractContent contents) = []")
  case True
  with assms show ?thesis
    by (auto simp add: gemini_scanContent_def no_content_verdict_def get_def)
next
  case False
  with assms(1) have "remoteScan cfg pf (gemini_extractContent contents) = (Inr v, reqs)"
    by (simp add: gemini_scanContent_def)
  from remoteScan_shape [OF this] assms(2) show ?thesis by (rule unsafe_shape_reads)
qed

section \<open>Properties of the generation calls\<close>

lemma openai_create_error:
  "openai_scanMessages cfg pf (messages params) = (Inl e, reqs) \<Longrightarrow>
   openai_create cfg pf provider params =
     \<lparr> result = Inl e, fetches = reqs, provider_calls = [] \<rparr>"
  by (simp add: openai_create_def)


lemma openai_create_blocked:
  assumes "openai_scanMessages cfg pf (messages params) = (Inr v, reqs)"
    and "\<not> truthy (get v ''safe'')"
  shows "openai_create cfg pf provider params =
     \<lparr> result = Inl (ShrikeBlockedError (''Request blocked: '' @ to_string pf (get v ''reason''))
                   (get v ''threat_type'') (get v ''confidence'') (JArr [])),
       fetches = reqs, provider_calls = [] \<rparr>"
  using assms openai_scan_shape [OF assms]
  by (simp add: openai_create_def js_or_def)

lemma anthropic_create_error:
  "anthropic_scanMessages cfg pf (anthropic_messages params) = (Inl e, reqs) \<Longrightarrow>
   anthropic_create cfg pf provider params =
     \<lparr> result = Inl e, fetches = reqs, provider_calls = [] \<rparr>"
  by (simp add: anthropic_create_def)


lemma anthropic_create_blocked:
  assumes "anthropic_scanMessages cfg pf (anthropic_messages params) = (Inr v, reqs)"
    and "\<not> truthy (get v ''safe'')"
  shows "anthropic_create cfg pf provider params =
     \<lparr> result = Inl (ShrikeBlockedError (''Request blocked: '' @ to_string pf (get v ''reason''))
                   (get v ''threat_type'') (get v ''confidence'') (JArr [])),
       fetches = reqs, provider_calls = [] \<rparr>"
  using assms anthropic_scan_shape [OF assms]
  by (simp add: anthropic_create_def js_or_def)

lemma gemini_guarded_error:
  "gemini_scanContent cfg pf contents = (Inl e, reqs) \<Longrightarrow>
   gemini_guarded cfg pf native contents =
     \<lparr> result = Inl e, fetches = reqs, provider_calls = [] \<rparr>"
  by (simp add: gemini_guarded_def)


lemma gemini_guarded_blocked:
  assumes "gemini_scanContent cfg pf contents = (Inr v, reqs)"
    and "\<not> truthy (get v ''safe'')"
  shows "gemini_guarded cfg pf native contents =
     \<lparr> result = Inl (ShrikeBlockedError (to_string pf (get v ''reason''))
                   (get v ''threat_type'') (get v ''confidence'') (JArr [])),
       fetches = reqs, provider_calls = [] \<rparr>"
  using assms gemini_scan_shape [OF assms]
  by (simp add: gemini_guarded_def js_or_def)

lemmas gemini_entry_defs =
  generateContent_def generateContentStream_def sendMessage_def sendMessageStream_def

section \<open>Claims about blocking and the fail mode\<close>

text \<open>The scan of the test prompt against a service that answers with the PII payload.\<close>

lemma pii_scan_openai:
  "openai_scanMessages (constructor (test_options (Some ''open'')))
      (backend_answers 200 (JObj pii_payload)) [user_message ssn_prompt]
   = (Inr pii_verdict, [scan_request (constructor (test_options (Some ''open''))) ssn_prompt])"
  by code_simp

lemma pii_scan_anthropic:
  "anthropic_scanMessages (constructor (test_options (Some ''open'')))
      (backend_answers 200 (JObj pii_payload)) [user_message ssn_prompt]
   = (Inr pii_verdict, [scan_request (constructor (test_options (Some ''open''))) ssn_prompt])"
  by code_simp

lemma pii_scan_gemini:
  "gemini_scanContent (constructor (test_options (Some ''open'')))
      (backend_answers 200 (JObj pii_payload)) (GString ssn_prompt)
   = (Inr pii_verdict, [scan_request (constructor (test_options (Some ''open''))) ssn_prompt])"
  by code_simp

lemma pii_verdict_reads:
  "\<not> truthy (get pii_verdict ''safe'')"
  "get pii_verdict ''reason'' = JStr ''PII detected''"
  "get pii_verdict ''threat_type'' = JStr ''pii_exposure''"
  "get pii_verdict ''confidence'' = JStr ''high''"
  by code_simp+

text \<open>
  Claim C1, as amended. For each of the six generation entry points, whenever the scan
  step resolves to a verdict whose \<open>safe\<close> is falsy, the call raises a
  \<open>ShrikeBlockedError\<close> whose message carries the verdict's reason and whose fields are
  the verdict's \<open>threat_type\<close> and \<open>confidence\<close> and an empty list of violations, and the
  wrapped provider is not invoked; this holds for every configuration, so for every fail
  mode. The list of violations is always empty, because no verdict of the scan step has a
  \<open>violations\<close> field: the sanitizer drops the one of the service.
\<close>

theorem blocked_on_unsafe_verdict:
  "(openai_scanMessages cfg pf (messages params) = (Inr v, reqs) \<and> \<not> truthy (get v ''safe'') \<longrightarrow>
      openai_create cfg pf provider params =
        \<lparr> result = Inl (ShrikeBlockedError (''Request blocked: '' @ to_string pf (get v ''reason''))
                      (get v ''threat_type'') (get v ''confidence'') (JArr [])),
          fetches = reqs, provider_calls = [] \<rparr>)
   \<and> (anthropic_scanMessages cfg pf (anthropic_messages aparams) = (Inr v, reqs)
        \<and> \<not> truthy (get v ''safe'') \<longrightarrow>
      anthropic_create cfg pf aprovider aparams =
        \<lparr> result = Inl (ShrikeBlockedError (''Request blocked: '' @ to_string pf (get v ''reason''))
                      (get v ''threat_type'') (get v ''confidence'') (JArr [])),
          fetches = reqs, provider_calls = [] \<rparr>)
   \<and> (gemini_scanContent cfg pf contents = (Inr v, reqs) \<and> \<not> truthy (get v ''safe'') \<longrightarrow>
      generateContent cfg pf model contents =
        \<lparr> result = Inl (ShrikeBlockedError (to_string pf (get v ''reason''))
                      (get v ''threat_type'') (get v ''confidence'') (JArr [])),
          fetches = reqs, provider_calls = [] \<rparr>
      \<and> generateContentStream cfg pf model contents =
        \<lparr> result = Inl (ShrikeBlockedError (to_string pf (get v ''reason''))
                      (get v ''threat_type'') (get v ''confidence'') (JArr [])),
          fetches = reqs, provider_calls = [] \<rparr>
      \<and> sendMessage cfg pf chat contents =
        \<lparr> result = Inl (ShrikeBlockedError (to_string pf (get v ''reason''))
                      (get v ''threat_type'') (get v ''confidence'') (JArr [])),
          fetches = reqs, provider_calls = [] \<rparr>
      \<and> sendMessageStream cfg pf chat contents =
        \<lparr> result = Inl (ShrikeBlockedError (to_string pf (get v ''reason''))
                      (get v ''threat_type'') (get v ''confidence'') (JArr [])),
          fetches = reqs, provider_calls = [] \<rparr>)"
proof (intro conjI impI)
  assume "openai_scanMessages cfg pf (messages params) = (Inr v, reqs) \<and> \<not> truthy (get v ''safe'')"
  then show "openai_create cfg pf provider params =
        \<lparr> result = Inl (ShrikeBlockedError (''Request blocked: '' @ to_string pf (get v ''reason''))
                      (get v ''threat_type'') (get v ''confidence'') (JArr [])),
          fetches = reqs, provider_calls = [] \<rparr>"
    by (simp add: openai_create_blocked)
next
  assume "anthropic_scanMessages cfg pf (anthropic_messages aparams) = (Inr v, reqs)
        \<and> \<not> truthy (get v ''safe'')"
  then show "anthropic_create cfg pf aprovider aparams =
        \<lparr> result = Inl (ShrikeBlockedError (''Request blocked: '' @ to_string pf (get v ''reason''))
                      (get v ''threat_type'') (get v ''confidence'') (JArr [])),
          fetches = reqs, provider_calls = [] \<rparr>"
    by (simp add: anthropic_create_blocked)
next
  assume h: "gemini_scanContent cfg pf contents = (Inr v, reqs) \<and> \<not> truthy (get v ''safe'')"
  then show "generateContent cfg pf model contents =
        \<lparr> result = Inl (ShrikeBlockedError (to_string pf (get v ''reason''))
                      (get v ''threat_type'') (get v ''confidence'') (JArr [])),
          fetches = reqs, provider_calls = [] \<rparr>"
    by (simp add: generateContent_def gemini_guarded_blocked)
  from h show "generateContentStream cfg pf model contents =
        \<lparr> result = Inl (ShrikeBlockedError (to_string pf (get v ''reason''))
                      (get v ''threat_type'') (get v ''confidence'') (JArr [])),
          fetches = reqs, provider_calls = [] \<rparr>"
    by (simp add: generateContentStream_def gemini_guarded_blocked)
  from h show "sendMessage cfg pf chat contents =
        \<lparr> result = Inl (ShrikeBlockedError (to_string pf (get v ''reason''))
                      (get v ''threat_type'') (get v ''confidence'') (JArr [])),
          fetches = reqs, provider_calls = [] \<rparr>"
    by (simp add: sendMessage_def gemini_guarded_blocked)
  from h show "sendMessageStream cfg pf chat contents =
        \<lparr> result = Inl (ShrikeBlockedError (to_string pf (get v ''reason''))
                      (get v ''threat_type'') (get v ''confidence'') (JArr [])),
          fetches = reqs, provider_calls = [] \<rparr>"
    by (simp add: sendMessageStream_def gemini_guarded_blocked)
qed

theorem blocked_on_unsafe_verdict_witness:
  "openai_scanMessages (constructor (test_options (Some ''open'')))
      (backend_answers 200 (JObj pii_payload)) [user_message ssn_prompt]
     = (Inr pii_verdict, [scan_request (constructor (test_options (Some ''open''))) ssn_prompt])
   \<and> \<not> truthy (get pii_verdict ''safe'')
   \<and> openai_create (constructor (test_options (Some ''open'')))
        (backend_answers 200 (JObj pii_payload)) test_provider
        \<lparr> messages = [user_message ssn_prompt], openai_rest = () \<rparr>
     = \<lparr> result = Inl (ShrikeBlockedError ''Request blocked: PII detected''
                      (JStr ''pii_exposure'') (JStr ''high'') (JArr [])),
         fetches = [scan_request (constructor (test_options (Some ''open''))) ssn_prompt],
         provider_calls = [] \<rparr>
   \<and> anthropic_create (constructor (test_options (Some ''open'')))
        (backend_answers 200 (JObj pii_payload)) test_provider
        \<lparr> anthropic_messages = [user_message ssn_prompt], stream = None, anthropic_rest = () \<rparr>
     = \<lparr> result = Inl (ShrikeBlockedError ''Request blocked: PII detected''
                      (JStr ''pii_exposure'') (JStr ''high'') (JArr [])),
         fetches = [scan_request (constructor (test_options (Some ''open''))) ssn_prompt],
         provider_calls = [] \<rparr>
   \<and> sendMessageStream (constructor (test_options (Some ''open'')))
        (backend_answers 200 (JObj pii_payload)) test_chat (GString ssn_prompt)
     = \<lparr> result = Inl (ShrikeBlockedError ''PII detected''
                      (JStr ''pii_exposure'') (JStr ''high'') (JArr [])),
         fetches = [scan_request (constructor (test_options (Some ''open''))) ssn_prompt],
         provider_calls = [] \<rparr>"
proof -
  let ?cfg = "constructor (test_options (Some ''open''))"
  let ?pf = "backend_answers 200 (JObj pii_payload)"
  let ?reqs = "[scan_request ?cfg ssn_prompt]"
  have o: "openai_scanMessages ?cfg ?pf
             (messages \<lparr> messages = [user_message ssn_prompt], openai_rest = () \<rparr>)
           = (Inr pii_verdict, ?reqs)"
    using pii_scan_openai by simp
  have a: "anthropic_scanMessages ?cfg ?pf
             (anthropic_messages \<lparr> anthropic_messages = [user_message ssn_prompt],
                 stream = None, anthropic_rest = () \<rparr>)
           = (Inr pii_verdict, ?reqs)"
    using pii_scan_anthropic by simp
  note t = blocked_on_unsafe_verdict
    [where cfg = ?cfg and pf = ?pf and v = pii_verdict and reqs = ?reqs
       and params = "\<lparr> messages = [user_message ssn_prompt], openai_rest = () \<rparr>"
       and provider = test_provider
       and aparams = "\<lparr> anthropic_messages = [user_message ssn_prompt], stream = None,
                        anthropic_rest = () \<rparr>"
       and aprovider = test_provider
       and contents = "GString ssn_prompt" and model = test_model and chat = test_chat]
  show ?thesis
    using t o a pii_scan_gemini pii_scan_openai pii_verdict_reads
    by (simp add: to_string_def)
qed

text \<open>
  Against claim C1 as it is worded: the error does not pass the violations of the
  service through. In the scenario of the test \<open>should include threat details in blocked
  error\<close> the service sends one violation and the error has none.
\<close>

theorem blocked_error_without_backend_violations:
  "get pii_payload ''violations''
     = JArr [JObj [(''type'', JStr ''ssn''), (''value'', JStr ''***-**-1234'')]]
   \<and> result (openai_create (constructor (test_options None))
               (backend_answers 200 (JObj pii_payload)) test_provider
               \<lparr> messages = [user_message ssn_prompt], openai_rest = () \<rparr>)
     = Inl (ShrikeBlockedError ''Request blocked: PII detected''
              (JStr ''pii_exposure'') (JStr ''high'') (JArr []))"
  by code_simp

lemma failed_scan_openai:
  assumes "trim (openai_extractUserContent (messages params)) \<noteq> []"
    and "remoteScan cfg pf (openai_extractUserContent (messages params)) = (Inl e, reqs)"
  shows "openai_create cfg pf provider params =
           \<lparr> result = Inl e, fetches = reqs, provider_calls = [] \<rparr>"
  using assms by (intro openai_create_error) (simp add: openai_scanMessages_def)

lemma failed_scan_anthropic:
  assumes "trim (anthropic_extractUserContent (anthropic_messages params)) \<noteq> []"
    and "remoteScan cfg pf (anthropic_extractUserContent (anthropic_messages params)) = (Inl e, reqs)"
  shows "anthropic_create cfg pf provider params =
           \<lparr> result = Inl e, fetches = reqs, provider_calls = [] \<rparr>"
  using assms by (intro anthropic_create_error) (simp add: anthropic_scanMessages_def)

lemma failed_scan_gemini:
  assumes "trim (gemini_extractContent contents) \<noteq> []"
    and "remoteScan cfg pf (gemini_extractContent contents) = (Inl e, reqs)"
  shows "gemini_guarded cfg pf native contents =
           \<lparr> result = Inl e, fetches = reqs, provider_calls = [] \<rparr>"
  using assms by (intro gemini_guarded_error) (simp add: gemini_scanContent_def)










text \<open>
  Claim C10. A wrapper constructed with a \<open>failMode\<close> string other than \<open>open\<close>, a string
  that the constructor stores as it is, fails closed: every failed scan (a rejected
  fetch, a response that is not ok, a body that cannot be read or sanitized) raises a
  \<open>ShrikeScanError\<close>, and each of the six generation entry points raises it without
  invoking the provider. (With no \<open>failMode\<close> at all the constructor stores the default,
  \<open>open\<close>.)
\<close>

theorem non_open_fail_mode_is_closed:
  assumes "opt_failMode opts = Some s" and "s \<noteq> ''open''"
  shows "failMode (constructor opts) = s
     \<and> (scan_failed (fetch pf (scan_request (constructor opts) p)) \<longrightarrow>
          (\<exists>e. remoteScan (constructor opts) pf p
                 = (Inl (ShrikeScanError e), [scan_request (constructor opts) p]))
        \<and> (trim p \<noteq> [] \<longrightarrow>
             (openai_extractUserContent (messages params) = p \<longrightarrow>
                (\<exists>e. openai_create (constructor opts) pf provider params
                   = \<lparr> result = Inl (ShrikeScanError e),
                       fetches = [scan_request (constructor opts) p], provider_calls = [] \<rparr>))
           \<and> (anthropic_extractUserContent (anthropic_messages aparams) = p \<longrightarrow>
                (\<exists>e. anthropic_create (constructor opts) pf aprovider aparams
                   = \<lparr> result = Inl (ShrikeScanError e),
                       fetches = [scan_request (constructor opts) p], provider_calls = [] \<rparr>))
           \<and> (gemini_extractContent contents = p \<longrightarrow>
                (\<exists>e. generateContent (constructor opts) pf model contents
                       = \<lparr> result = Inl (ShrikeScanError e),
                           fetches = [scan_request (constructor opts) p], provider_calls = [] \<rparr>
                    \<and> generateContentStream (constructor opts) pf model contents
                       = \<lparr> result = Inl (ShrikeScanError e),
                           fetches = [scan_request (constructor opts) p], provider_calls = [] \<rparr>
                    \<and> sendMessage (constructor opts) pf chat contents
                       = \<lparr> result = Inl (ShrikeScanError e),
                           fetches = [scan_request (constructor opts) p], provider_calls = [] \<rparr>
                    \<and> sendMessageStream (constructor opts) pf chat contents
                       = \<lparr> result = Inl (ShrikeScanError e),
                           fetches = [scan_request (constructor opts) p],
                           provider_calls = [] \<rparr>))))"
proof (rule conjI)
  let ?cfg = "constructor opts"
  from assms show mode: "failMode ?cfg = s" by (simp add: constructor_def)
  with assms have closed: "failMode ?cfg \<noteq> FailMode_OPEN" by (simp add: FailMode_OPEN_def)
  have r: "scan_failed (fetch pf (scan_request ?cfg p)) \<Longrightarrow>
      \<exists>e. remoteScan ?cfg pf p = (Inl (ShrikeScanError e), [scan_request ?cfg p])"
    by (rule remoteScan_failed_closed [OF _ closed])
  have o: "remoteScan ?cfg pf p = (Inl (ShrikeScanError e), [scan_request ?cfg p]) \<Longrightarrow>
        trim p \<noteq> [] \<Longrightarrow> openai_extractUserContent (messages params) = p \<Longrightarrow>
        openai_create ?cfg pf provider params
          = \<lparr> result = Inl (ShrikeScanError e), fetches = [scan_request ?cfg p],
              provider_calls = [] \<rparr>" for e
    by (intro failed_scan_openai) simp_all
  have a: "remoteScan ?cfg pf p = (Inl (ShrikeScanError e), [scan_request ?cfg p]) \<Longrightarrow>
        trim p \<noteq> [] \<Longrightarrow> anthropic_extractUserContent (anthropic_messages aparams) = p \<Longrightarrow>
        anthropic_create ?cfg pf aprovider aparams
          = \<lparr> result = Inl (ShrikeScanError e), fetches = [scan_request ?cfg p],
              provider_calls = [] \<rparr>" for e
    by (intro failed_scan_anthropic) simp_all
  have g: "remoteScan ?cfg pf p = (Inl (ShrikeScanError e), [scan_request ?cfg p]) \<Longrightarrow>
        trim p \<noteq> [] \<Longrightarrow> gemini_extractContent contents = p \<Longrightarrow>
        gemini_guarded ?cfg pf native contents
          = \<lparr> result = Inl (ShrikeScanError e), fetches = [scan_request ?cfg p],
              provider_calls = [] \<rparr>" for e and native :: "gemini_content \<Rightarrow> exn + 'r"
    by (intro failed_scan_gemini) simp_all
  show "scan_failed (fetch pf (scan_request ?cfg p)) \<longrightarrow>
          (\<exists>e. remoteScan ?cfg pf p = (Inl (ShrikeScanError e), [scan_request ?cfg p]))
        \<and> (trim p \<noteq> [] \<longrightarrow>
             (openai_extractUserContent (messages params) = p \<longrightarrow>
                (\<exists>e. openai_create ?cfg pf provider params
                   = \<lparr> result = Inl (ShrikeScanError e),
                       fetches = [scan_request ?cfg p], provider_calls = [] \<rparr>))
           \<and> (anthropic_extractUserContent (anthropic_messages aparams) = p \<longrightarrow>
                (\<exists>e. anthropic_create ?cfg pf aprovider aparams
                   = \<lparr> result = Inl (ShrikeScanError e),
                       fetches = [scan_request ?cfg p], provider_calls = [] \<rparr>))
           \<and> (gemini_extractContent contents = p \<longrightarrow>
                (\<exists>e. generateContent ?cfg pf model contents
                       = \<lparr> result = Inl (ShrikeScanError e),
                           fetches = [scan_request ?cfg p], provider_calls = [] \<rparr>
                    \<and> generateContentStream ?cfg pf model contents
                       = \<lparr> result = Inl (ShrikeScanError e),
                           fetches = [scan_request ?cfg p], provider_calls = [] \<rparr>
                    \<and> sendMessage ?cfg pf chat contents
                       = \<lparr> result = Inl (ShrikeScanError e),
                           fetches = [scan_request ?cfg p], provider_calls = [] \<rparr>
                    \<and> sendMessageStream ?cfg pf chat contents
                       = \<lparr> result = Inl (ShrikeScanError e),
                           fetches = [scan_request ?cfg p],
                           provider_calls = [] \<rparr>)))"
    unfolding gemini_entry_defs
    apply (rule impI)
    apply (drule r)
    apply (erule exE)
    apply (intro conjI impI)
       apply (erule exI)
      apply (rule exI, erule (2) o)
     apply (rule exI, erule (2) a)
    apply (rule exI, intro conjI; erule (2) g)
    done
qed

theorem non_open_fail_mode_is_closed_witness:
  "opt_failMode (test_options (Some ''Open'')) = Some ''Open'' \<and> ''Open'' \<noteq> ''open''
   \<and> failMode (constructor (test_options (Some ''Open''))) = ''Open''
   \<and> scan_failed (fetch (backend_rejects ''fetch failed'')
         (scan_request (constructor (test_options (Some ''Open''))) ''Hello!''))
   \<and> trim ''Hello!'' \<noteq> []
   \<and> (\<exists>e. openai_create (constructor (test_options (Some ''Open'')))
             (backend_rejects ''fetch failed'') test_provider
             \<lparr> messages = [user_message ''Hello!''], openai_rest = () \<rparr>
           = \<lparr> result = Inl (ShrikeScanError e),
               fetches = [scan_request (constructor (test_options (Some ''Open''))) ''Hello!''],
               provider_calls = [] \<rparr>)
   \<and> result (openai_create (constructor (test_options (Some ''allow'')))
             (backend_answers 500 JNull) test_provider
             \<lparr> messages = [user_message ''Hello!''], openai_rest = () \<rparr>)
       = Inl (ShrikeScanError ''Scan API returned error: 500'')"
proof -
  let ?opts = "test_options (Some ''Open'')"
  let ?pf = "backend_rejects ''fetch failed''"
  let ?params = "\<lparr> messages = [user_message ''Hello!''], openai_rest = () \<rparr>"
  have h: "opt_failMode ?opts = Some ''Open''" "''Open'' \<noteq> ''open''"
    by (simp_all add: test_options_def)
  have f: "scan_failed (fetch ?pf (scan_request (constructor ?opts) ''Hello!''))"
    by (simp add: backend_rejects_def scan_failed_def)
  have p: "trim ''Hello!'' \<noteq> []" "openai_extractUserContent (messages ?params) = ''Hello!''"
    by code_simp+
  have allow: "result (openai_create (constructor (test_options (Some ''allow'')))
             (backend_answers 500 JNull) test_provider ?params)
       = Inl (ShrikeScanError ''Scan API returned error: 500'')"
    by code_simp
  note t = non_open_fail_mode_is_closed [OF h, where pf = ?pf and p = "''Hello!''"
      and params = ?params and provider = test_provider]
  from t have m: "failMode (constructor ?opts) = ''Open''" by (rule conjunct1)
  from t [THEN conjunct2, THEN mp, OF f, THEN conjunct2, THEN mp, OF p(1), THEN conjunct1,
          THEN mp, OF p(2)]
  have c: "\<exists>e. openai_create (constructor ?opts) ?pf test_provider ?params
           = \<lparr> result = Inl (ShrikeScanError e),
               fetches = [scan_request (constructor ?opts) ''Hello!''],
               provider_calls = [] \<rparr>" .
  from h m f p(1) c allow show ?thesis by (intro conjI)
qed

section \<open>The size guard\<close>

lemma size_limit_verdict_reads:
  "get (size_limit_verdict what subject n) ''safe'' = JBool False"
  "get (size_limit_verdict what subject n) ''threat_type'' = JStr ''size_limit_exceeded''"
  by (simp_all add: size_limit_verdict_def get_def)

lemma openai_scan_sends:
  assumes "trim (openai_extractUserContent msgs) \<noteq> []"
  shows "snd (openai_scanMessages cfg pf msgs) = [scan_request cfg (openai_extractUserContent msgs)]"
  using assms by (simp add: openai_scanMessages_def remoteScan_fetches)

lemma anthropic_scan_sends:
  assumes "trim (anthropic_extractUserContent msgs) \<noteq> []"
  shows "snd (anthropic_scanMessages cfg pf msgs)
           = [scan_request cfg (anthropic_extractUserContent msgs)]"
  using assms by (simp add: anthropic_scanMessages_def remoteScan_fetches)

lemma gemini_scan_sends:
  assumes "trim (gemini_extractContent contents) \<noteq> []"
  shows "snd (gemini_scanContent cfg pf contents)
           = [scan_request cfg (gemini_extractContent contents)]"
  using assms by (simp add: gemini_scanContent_def remoteScan_fetches)

lemma oversized_prompt_length: "length oversized_prompt = 102401"
  by (simp add: oversized_prompt_def)

lemma oversized_prompt_not_blank: "trim oversized_prompt \<noteq> []"
proof -
  have "CHR ''a'' \<in> set oversized_prompt" by (simp add: oversized_prompt_def)
  moreover have "\<not> is_whitespace (CHR ''a'')" by (simp add: is_whitespace_def)
  ultimately show ?thesis unfolding trim_empty_iff by blast
qed

text \<open>
  Claim C4, as amended. In \<open>ScanClient\<close> the three methods check the size before any
  request: when the prompt and the context together (\<open>scan\<close>), the query (\<open>scanSql\<close>) or
  the path and the file content together (\<open>scanFile\<close>) are longer than 102400 characters,
  the method returns the local verdict, with \<open>safe\<close> false and threat type
  \<open>size_limit_exceeded\<close>, and sends nothing. The wrappers have no such guard:
  \<open>_remoteScan\<close> sends its request whatever the length of the prompt, and so does the
  scan step of each wrapper for any content that is not blank.
\<close>

theorem size_guard_in_scan_client:
  "MAX_CONTENT_SIZE = 102400
   \<and> (length prompt + length_or_zero ctx > MAX_CONTENT_SIZE \<longrightarrow>
        scan client pf prompt ctx =
          (Inr (size_limit_verdict ''Content'' ''Content''
                  (length prompt + length_or_zero ctx)), []))
   \<and> (length query > MAX_CONTENT_SIZE \<longrightarrow>
        scanSql client pf query database allowDestructive =
          (Inr (size_limit_verdict ''SQL query'' ''Query'' (length query)), []))
   \<and> (length path + length_or_zero file_content > MAX_CONTENT_SIZE \<longrightarrow>
        scanFile client pf path file_content =
          (Inr (size_limit_verdict ''File content'' ''Content''
                  (length path + length_or_zero file_content)), []))
   \<and> get (size_limit_verdict what subject n) ''safe'' = JBool False
   \<and> get (size_limit_verdict what subject n) ''threat_type'' = JStr ''size_limit_exceeded''
   \<and> snd (remoteScan cfg pf p) = [scan_request cfg p]
   \<and> (trim (openai_extractUserContent msgs) \<noteq> [] \<longrightarrow>
        snd (openai_scanMessages cfg pf msgs)
          = [scan_request cfg (openai_extractUserContent msgs)])
   \<and> (trim (anthropic_extractUserContent msgs) \<noteq> [] \<longrightarrow>
        snd (anthropic_scanMessages cfg pf msgs)
          = [scan_request cfg (anthropic_extractUserContent msgs)])
   \<and> (trim (gemini_extractContent contents) \<noteq> [] \<longrightarrow>
        snd (gemini_scanContent cfg pf contents)
          = [scan_request cfg (gemini_extractContent contents)])"
  by (simp add: MAX_CONTENT_SIZE_def scan_def scanSql_def scanFile_def size_limit_verdict_reads
        remoteScan_fetches openai_scan_sends anthropic_scan_sends gemini_scan_sends)

theorem size_guard_in_scan_client_witness:
  "length oversized_prompt + length_or_zero None > MAX_CONTENT_SIZE
   \<and> scan (ScanClient ''shrike-test'' None None) (backend_answers 200 JNull) oversized_prompt None
       = (Inr (size_limit_verdict ''Content'' ''Content'' 102401), [])
   \<and> get (size_limit_verdict ''Content'' ''Content'' 102401) ''threat_type''
       = JStr ''size_limit_exceeded''
   \<and> scanSql (ScanClient ''shrike-test'' None None) (backend_answers 200 JNull) oversized_prompt
        None False
       = (Inr (size_limit_verdict ''SQL query'' ''Query'' 102401), [])
   \<and> scanFile (ScanClient ''shrike-test'' None None) (backend_answers 200 JNull) ''/tmp/x''
        (Some oversized_prompt)
       = (Inr (size_limit_verdict ''File content'' ''Content'' 102407), [])
   \<and> trim ''Hello!'' \<noteq> []
   \<and> snd (openai_scanMessages (constructor (test_options None)) (backend_answers 200 JNull)
            [user_message ''Hello!''])
       = [scan_request (constructor (test_options None)) ''Hello!'']"
proof -
  have big: "length oversized_prompt + length_or_zero None > MAX_CONTENT_SIZE"
    "length oversized_prompt > MAX_CONTENT_SIZE"
    "length ''/tmp/x'' + length_or_zero (Some oversized_prompt) > MAX_CONTENT_SIZE"
    by (simp_all add: oversized_prompt_length length_or_zero_def MAX_CONTENT_SIZE_def)
  have p: "trim ''Hello!'' \<noteq> []" "openai_extractUserContent [user_message ''Hello!''] = ''Hello!''"
    by code_simp+
  note t = size_guard_in_scan_client
    [where client = "ScanClient ''shrike-test'' None None" and pf = "backend_answers 200 JNull"
       and prompt = oversized_prompt and ctx = None and query = oversized_prompt
       and database = None and allowDestructive = False
       and path = "''/tmp/x''" and file_content = "Some oversized_prompt"
       and what = "''Content''" and subject = "''Content''" and n = 102401
       and cfg = "constructor (test_options None)" and msgs = "[user_message ''Hello!'']"]
  from t big p show ?thesis
    by (simp add: length_or_zero_def oversized_prompt_length)
qed

lemma remoteScan_ok:
  assumes "fetch pf (scan_request cfg p) = Resolved resp" and "ok resp"
    and "json_body resp = JsonBody b" and "sanitize_body b = Inr v"
  shows "remoteScan cfg pf p = (Inr v, [scan_request cfg p])"
  using assms by (simp add: remoteScan_def remoteScan_try_def Let_def)

text \<open>
  Against claim C4 as it is worded: the scan step of the OpenAI wrapper sends a prompt of
  102401 characters to the service and returns the verdict of the service.
\<close>

theorem wrapper_scans_oversized_prompt:
  "length oversized_prompt > MAX_CONTENT_SIZE
   \<and> openai_scanMessages (constructor (test_options None))
        (backend_answers 200 (JObj [(''safe'', JBool True)])) [user_message oversized_prompt]
     = (Inr [(''safe'', JBool True), (''reason'', JStr [])],
        [scan_request (constructor (test_options None)) oversized_prompt])"
proof -
  let ?cfg = "constructor (test_options None)"
  let ?pf = "backend_answers 200 (JObj [(''safe'', JBool True)])"
  have n: "oversized_prompt \<noteq> []"
    using oversized_prompt_length by auto
  then have e: "openai_extractUserContent [user_message oversized_prompt] = oversized_prompt"
    by (simp add: openai_extractUserContent_def user_message_def)
  have s: "sanitize_body (JObj [(''safe'', JBool True)])
             = Inr [(''safe'', JBool True), (''reason'', JStr [])]"
    by code_simp
  have "remoteScan ?cfg ?pf oversized_prompt
          = (Inr [(''safe'', JBool True), (''reason'', JStr [])],
             [scan_request ?cfg oversized_prompt])"
    by (rule remoteScan_ok [where resp = "\<lparr> status = 200,
           json_body = JsonBody (JObj [(''safe'', JBool True)]) \<rparr>", OF _ _ _ s])
       (simp_all add: backend_answers_def ok_def)
  with e oversized_prompt_not_blank show ?thesis
    by (simp add: openai_scanMessages_def oversized_prompt_length MAX_CONTENT_SIZE_def)
qed

section \<open>Properties of the extraction\<close>

lemma push_parts_spans:
  "push_parts acc ps = acc @ filter (\<lambda>t. t \<noteq> []) (block_spans ps)"
proof (induction ps arbitrary: acc)
  case Nil
  then show ?case by (simp add: block_spans_def)
next
  case (Cons part ps)
  then show ?case
    by (cases "part_text part") (simp_all add: block_spans_def)
qed

lemma openai_userContents_spans:
  "openai_userContents acc msgs =
     acc @ concat (map (\<lambda>m. filter (\<lambda>t. t \<noteq> []) (message_spans m)) msgs)"
proof (induction msgs arbitrary: acc)
  case Nil
  then show ?case by simp
next
  case (Cons msg msgs)
  show ?case
    by (cases "content msg") (simp_all add: Cons.IH message_spans_def push_parts_spans)
qed

lemma anthropic_userContents_spans:
  "anthropic_userContents acc msgs = acc @ concat (map message_spans_nonempty_blocks msgs)"
proof (induction msgs arbitrary: acc)
  case Nil
  then show ?case by simp
next
  case (Cons msg msgs)
  show ?case
    by (cases "content msg")
       (simp_all add: Cons.IH message_spans_nonempty_blocks_def push_parts_spans)
qed

lemma openai_extract_spans:
  "openai_extractUserContent msgs = join [CHR 0x0A] (filter (\<lambda>s. s \<noteq> []) (user_text_spans msgs))"
  by (simp add: openai_extractUserContent_def openai_userContents_spans user_text_spans_def
        filter_concat comp_def)

lemma anthropic_extract_spans:
  "anthropic_extractUserContent msgs =
     join [CHR 0x0A] (concat (map message_spans_nonempty_blocks msgs))"
  by (simp add: anthropic_extractUserContent_def anthropic_userContents_spans)

lemma nonempty_blocks_eq:
  assumes "\<forall>s \<in> set (message_spans m). s \<noteq> []"
  shows "message_spans_nonempty_blocks m = message_spans m"
  using assms
  by (cases "content m") (auto simp add: message_spans_nonempty_blocks_def message_spans_def)

lemma extract_spec_agrees:
  assumes "\<forall>s \<in> set (user_text_spans msgs). s \<noteq> []"
  shows "openai_extractUserContent msgs = extract_spec msgs"
    and "anthropic_extractUserContent msgs = extract_spec msgs"
proof -
  from assms have "filter (\<lambda>s. s \<noteq> []) (user_text_spans msgs) = user_text_spans msgs"
    by (simp add: filter_id_conv)
  then show "openai_extractUserContent msgs = extract_spec msgs"
    by (simp add: openai_extract_spans extract_spec_def)
  from assms have "\<forall>m \<in> set msgs. message_spans_nonempty_blocks m = message_spans m"
    by (auto simp add: user_text_spans_def intro!: nonempty_blocks_eq)
  then have "map message_spans_nonempty_blocks msgs = map message_spans msgs"
    by simp
  then show "anthropic_extractUserContent msgs = extract_spec msgs"
    by (simp only: anthropic_extract_spans extract_spec_def user_text_spans_def)
qed

lemma no_spans_no_content:
  assumes "user_text_spans msgs = []"
  shows "openai_extractUserContent msgs = []" and "anthropic_extractUserContent msgs = []"
proof -
  from assms have "\<forall>s \<in> set (user_text_spans msgs). s \<noteq> []" by simp
  from extract_spec_agrees [OF this] assms
  show "openai_extractUserContent msgs = []" and "anthropic_extractUserContent msgs = []"
    by (simp_all add: extract_spec_def)
qed

lemma push_texts_none:
  assumes "\<forall>i \<in> set items. i = Part None \<or> i = Part (Some [])"
  shows "push_texts acc items = acc"
  using assms by (induction items arbitrary: acc) auto

text \<open>The round trip of the specification, for both message extractors.\<close>

lemma extract_round_trip:
  "openai_extractUserContent [user_message ''A'', assistant_message ''B'', user_message ''C'']
     = ''A'' @ [CHR 0x0A] @ ''C''"
  "anthropic_extractUserContent [user_message ''A'', assistant_message ''B'', user_message ''C'']
     = ''A'' @ [CHR 0x0A] @ ''C''"
  by code_simp+

text \<open>
  Claim C6, as amended. For every message list in which no user-role text span is empty,
  both message extractors return the newline-joined concatenation, in the original
  order, of exactly the user-role text spans: the flat string contents of the user-role
  messages, and among the typed blocks of a user-role message the texts of the blocks of
  type \<open>text\<close>, the other blocks being ignored. In general the OpenAI extractor joins the
  spans that are not empty, and the Anthropic extractor joins the flat strings, empty or
  not, and the texts of text blocks that are not empty. For the list of a user message
  \<open>A\<close>, an assistant message \<open>B\<close> and a user message \<open>C\<close> both yield \<open>A\<close>, newline, \<open>C\<close>.
\<close>

theorem extraction_joins_user_text:
  "openai_extractUserContent msgs
     = join [CHR 0x0A] (filter (\<lambda>s. s \<noteq> []) (user_text_spans msgs))
   \<and> anthropic_extractUserContent msgs
     = join [CHR 0x0A] (concat (map message_spans_nonempty_blocks msgs))
   \<and> ((\<forall>s \<in> set (user_text_spans msgs). s \<noteq> []) \<longrightarrow>
        openai_extractUserContent msgs = extract_spec msgs
        \<and> anthropic_extractUserContent msgs = extract_spec msgs)
   \<and> openai_extractUserContent [user_message ''A'', assistant_message ''B'', user_message ''C'']
     = ''A'' @ [CHR 0x0A] @ ''C''
   \<and> anthropic_extractUserContent [user_message ''A'', assistant_message ''B'', user_message ''C'']
     = ''A'' @ [CHR 0x0A] @ ''C''"
  using openai_extract_spans anthropic_extract_spans extract_spec_agrees extract_round_trip
  by (intro conjI impI)

theorem extraction_joins_user_text_witness:
  "user_text_spans
        [\<lparr> role = ''user'', content = ContentParts
             [ContentPart ''text'' (Some ''What is in this image?''),
              ContentPart ''image_url'' None] \<rparr>,
         assistant_message ''A cat.'', user_message ''Thanks'']
     = [''What is in this image?'', ''Thanks'']
   \<and> openai_extractUserContent
        [\<lparr> role = ''user'', content = ContentParts
             [ContentPart ''text'' (Some ''What is in this image?''),
              ContentPart ''image_url'' None] \<rparr>,
         assistant_message ''A cat.'', user_message ''Thanks'']
     = ''What is in this image?'' @ [CHR 0x0A] @ ''Thanks''
   \<and> anthropic_extractUserContent
        [\<lparr> role = ''user'', content = ContentParts
             [ContentPart ''text'' (Some ''What is in this image?''),
              ContentPart ''image_url'' None] \<rparr>,
         assistant_message ''A cat.'', user_message ''Thanks'']
     = ''What is in this image?'' @ [CHR 0x0A] @ ''Thanks''"
proof -
  let ?msgs = "[\<lparr> role = ''user'', content = ContentParts
             [ContentPart ''text'' (Some ''What is in this image?''),
              ContentPart ''image_url'' None] \<rparr>,
         assistant_message ''A cat.'', user_message ''Thanks'']"
  have h: "\<forall>s \<in> set (user_text_spans ?msgs). s \<noteq> []"
    by code_simp
  have v: "extract_spec ?msgs = ''What is in this image?'' @ [CHR 0x0A] @ ''Thanks''"
    by code_simp
  have u: "user_text_spans ?msgs = [''What is in this image?'', ''Thanks'']"
    by code_simp
  from extraction_joins_user_text
         [where msgs = ?msgs, THEN conjunct2, THEN conjunct2, THEN conjunct1, THEN mp, OF h]
  have "openai_extractUserContent ?msgs = extract_spec ?msgs
        \<and> anthropic_extractUserContent ?msgs = extract_spec ?msgs" .
  with u v show ?thesis by (simp only:)
qed

text \<open>
  Against claim C6 as it is worded: the OpenAI extractor does not take a flat string
  content verbatim when it is empty. For two user messages with the contents \<open>""\<close> and
  \<open>"C"\<close> the spans join to newline, \<open>C\<close>, which is also what the Anthropic extractor
  returns; the OpenAI extractor returns \<open>C\<close>.
\<close>

theorem openai_skips_empty_string_content:
  "openai_extractUserContent [user_message [], user_message ''C''] = ''C''
   \<and> extract_spec [user_message [], user_message ''C''] = [CHR 0x0A] @ ''C''
   \<and> anthropic_extractUserContent [user_message [], user_message ''C''] = [CHR 0x0A] @ ''C''
   \<and> openai_extractUserContent [user_message [], user_message ''C'']
       \<noteq> extract_spec [user_message [], user_message ''C'']"
  by code_simp

section \<open>Content that is empty or blank\<close>

lemma openai_blank:
  assumes "\<forall>c \<in> set (openai_extractUserContent msgs). is_whitespace c"
  shows "openai_scanMessages cfg pf msgs =
           (Inr [(''safe'', JBool True), (''reason'', JStr ''No user content to scan'')], [])"
  using assms
  by (simp add: openai_scanMessages_def no_content_verdict_def trim_empty_iff)

lemma anthropic_blank:
  assumes "\<forall>c \<in> set (anthropic_extractUserContent msgs). is_whitespace c"
  shows "anthropic_scanMessages cfg pf msgs =
           (Inr [(''safe'', JBool True), (''reason'', JStr ''No user content to scan'')], [])"
  using assms
  by (simp add: anthropic_scanMessages_def no_content_verdict_def trim_empty_iff)

lemma gemini_blank:
  assumes "\<forall>c \<in> set (gemini_extractContent contents). is_whitespace c"
  shows "gemini_scanContent cfg pf contents =
           (Inr [(''safe'', JBool True), (''reason'', JStr ''No text content to scan'')], [])"
  using assms
  by (simp add: gemini_scanContent_def no_content_verdict_def trim_empty_iff)

lemma gemini_no_text_parts:
  assumes "\<forall>i \<in> set items. i = Part None \<or> i = Part (Some [])"
  shows "gemini_extractContent (GParts items) = []"
    and "gemini_extractContent (GObject None (Some items)) = []"
  using push_texts_none [OF assms, of "[]"]
  by (simp_all add: gemini_extractContent_def)

text \<open>An object with neither a text nor a list of parts is converted to a string and
  scanned as such.\<close>

lemma gemini_empty_object:
  "gemini_extractContent (GObject None None) = ''[object Object]''"
  "snd (gemini_scanContent cfg pf (GObject None None)) = [scan_request cfg ''[object Object]'']"
proof -
  show e: "gemini_extractContent (GObject None None) = ''[object Object]''"
    by (simp add: gemini_extractContent_def)
  have "trim ''[object Object]'' \<noteq> []" by code_simp
  with e show "snd (gemini_scanContent cfg pf (GObject None None))
        = [scan_request cfg ''[object Object]'']"
    by (simp add: gemini_scanContent_def remoteScan_fetches)
qed

text \<open>
  Claim C5, as amended. Whenever the extracted text is empty or consists of white space
  only, the scan step returns a safe verdict and sends nothing: \<open>_scanMessages\<close> of the
  OpenAI and of the Anthropic wrapper with the reason \<open>No user content to scan\<close>,
  \<open>_scanContent\<close> of the Gemini wrapper with the reason \<open>No text content to scan\<close>. For a
  message list without any user-role text span both message extractors return the empty
  string, and so does the Gemini extractor for a list of parts none of which has a text.
\<close>

theorem blank_content_skips_scan:
  "((\<forall>c \<in> set (openai_extractUserContent msgs). is_whitespace c) \<longrightarrow>
      openai_scanMessages cfg pf msgs =
        (Inr [(''safe'', JBool True), (''reason'', JStr ''No user content to scan'')], []))
   \<and> ((\<forall>c \<in> set (anthropic_extractUserContent msgs). is_whitespace c) \<longrightarrow>
      anthropic_scanMessages cfg pf msgs =
        (Inr [(''safe'', JBool True), (''reason'', JStr ''No user content to scan'')], []))
   \<and> ((\<forall>c \<in> set (gemini_extractContent contents). is_whitespace c) \<longrightarrow>
      gemini_scanContent cfg pf contents =
        (Inr [(''safe'', JBool True), (''reason'', JStr ''No text content to scan'')], []))
   \<and> (user_text_spans msgs = [] \<longrightarrow>
        openai_extractUserContent msgs = [] \<and> anthropic_extractUserContent msgs = [])
   \<and> ((\<forall>i \<in> set items. i = Part None \<or> i = Part (Some [])) \<longrightarrow>
        gemini_extractContent (GParts items) = []
        \<and> gemini_extractContent (GObject None (Some items)) = [])"
  using openai_blank anthropic_blank gemini_blank no_spans_no_content gemini_no_text_parts
  by (intro conjI impI)

theorem blank_content_skips_scan_witness:
  "user_text_spans [\<lparr> role = ''system'', content = ContentString ''You are helpful'' \<rparr>] = []
   \<and> openai_extractUserContent
        [\<lparr> role = ''system'', content = ContentString ''You are helpful'' \<rparr>] = []
   \<and> openai_extractUserContent [user_message ''   ''] = ''   ''
   \<and> openai_scanMessages (constructor (test_options None)) (backend_rejects ''unreachable'')
        [user_message ''   '']
     = (Inr [(''safe'', JBool True), (''reason'', JStr ''No user content to scan'')], [])
   \<and> gemini_extractContent (GString ''   '') = ''   ''
   \<and> gemini_scanContent (constructor (test_options None)) (backend_rejects ''unreachable'')
        (GString ''   '')
     = (Inr [(''safe'', JBool True), (''reason'', JStr ''No text content to scan'')], [])"
proof -
  let ?sys = "[\<lparr> role = ''system'', content = ContentString ''You are helpful'' \<rparr>]"
  let ?cfg = "constructor (test_options None)"
  let ?pf = "backend_rejects ''unreachable''"
  have s: "user_text_spans ?sys = []" by code_simp
  have b: "\<forall>c \<in> set (openai_extractUserContent [user_message ''   '']). is_whitespace c"
    by code_simp
  have g: "\<forall>c \<in> set (gemini_extractContent (GString ''   '')). is_whitespace c"
    by code_simp
  note t = blank_content_skips_scan [where cfg = ?cfg and pf = ?pf]
  from t [where msgs = ?sys, THEN conjunct2, THEN conjunct2, THEN conjunct2, THEN conjunct1,
          THEN mp, OF s]
  have 1: "openai_extractUserContent ?sys = []" by (rule conjunct1)
  from t [where msgs = "[user_message ''   '']", THEN conjunct1, THEN mp, OF b]
  have 2: "openai_scanMessages ?cfg ?pf [user_message ''   '']
     = (Inr [(''safe'', JBool True), (''reason'', JStr ''No user content to scan'')], [])" .
  from t [where contents = "GString ''   ''", THEN conjunct2, THEN conjunct2, THEN conjunct1,
          THEN mp, OF g]
  have 3: "gemini_scanContent ?cfg ?pf (GString ''   '')
     = (Inr [(''safe'', JBool True), (''reason'', JStr ''No text content to scan'')], [])" .
  have e: "openai_extractUserContent [user_message ''   ''] = ''   ''"
    "gemini_extractContent (GString ''   '') = ''   ''"
    by code_simp+
  from s 1 e 2 3 show ?thesis by (intro conjI)
qed

text \<open>
  Against claim C5 as it is worded: for blank content \<open>_scanContent\<close> of the Gemini
  wrapper does not give the reason \<open>No user content to scan\<close>.
\<close>

theorem gemini_blank_reason_differs:
  "gemini_scanContent (constructor (test_options None)) (backend_rejects ''unreachable'')
     (GString ''   '')
     = (Inr (no_content_verdict ''No text content to scan''), [])
   \<and> gemini_scanContent (constructor (test_options None)) (backend_rejects ''unreachable'')
     (GString ''   '')
     \<noteq> (Inr (no_content_verdict ''No user content to scan''), [])"
  by code_simp

end
